theory Spec2Isabelle
  imports Complex_Main "HOL-Library.AList" "HOL-Library.Sublist" "HOL-Library.Log_Nat"
begin

section \<open>JavaScript values used by the hotel routes\<close>

text \<open>
  What \<open>parseInt\<close> reads from a query string is an integer or the not-a-number
  sentinel; the integers are exact up to \<open>2 ^ 53\<close> in magnitude, beyond which a
  JavaScript number rounds. The numbers the payment route multiplies are modelled with
  their rounding, in the subsection on arithmetic below.
\<close>

datatype jsnum = Num int | NaN

text \<open>A JSON scalar of a request body.\<close>

datatype jsval = JNull | JBool bool | JNum int | JStr string

text \<open>
  A value of a parsed query string (\<open>ParsedQs\<close>): one string, or the strings of a
  repeated key. Nested objects (the bracket syntax) are not modelled. An absent key is
  \<open>None\<close> of \<open>qs option\<close>.
\<close>

datatype qs = QStr string | QArr "string list"

text \<open>Truthiness of a query value: only the empty string is falsy, every array is truthy.\<close>

fun truthy :: "qs \<Rightarrow> bool" where
  "truthy (QStr s) = (s \<noteq> [])"
| "truthy (QArr xs) = True"

fun join_comma :: "string list \<Rightarrow> string" where
  "join_comma [] = []"
| "join_comma [x] = x"
| "join_comma (x # y # ys) = x @ '','' @ join_comma (y # ys)"

text \<open>\<open>String(v)\<close>: an array joins its elements with a comma.\<close>

fun toString :: "qs \<Rightarrow> string" where
  "toString (QStr s) = s"
| "toString (QArr xs) = join_comma xs"

subsection \<open>parseInt\<close>

text \<open>The ASCII members of \<open>StrWhiteSpaceChar\<close>: TAB, LF, VT, FF, CR and space.\<close>

definition StrWhiteSpaceChar :: "char \<Rightarrow> bool" where
  "StrWhiteSpaceChar c = ((of_char c :: nat) \<in> {9, 10, 11, 12, 13, 32})"

definition digit_value :: "char \<Rightarrow> nat option" where
  "digit_value c =
     (let n = (of_char c :: nat)
      in if 48 \<le> n \<and> n \<le> 57 then Some (n - 48)
         else if 97 \<le> n \<and> n \<le> 122 then Some (n - 87)
         else if 65 \<le> n \<and> n \<le> 90 then Some (n - 55)
         else None)"

definition radix_digit :: "nat \<Rightarrow> char \<Rightarrow> bool" where
  "radix_digit R c = (case digit_value c of None \<Rightarrow> False | Some d \<Rightarrow> d < R)"

definition radix_value :: "nat \<Rightarrow> string \<Rightarrow> nat" where
  "radix_value R Z = foldl (\<lambda>acc c. acc * R + the (digit_value c)) 0 Z"

text \<open>
  \<open>parseInt(string)\<close> with no radix argument: leading white space is skipped, a sign is
  read, a \<open>0x\<close> prefix selects radix 16, and the longest prefix of digits is the value;
  with no digit the result is \<open>NaN\<close>.
\<close>

definition parseInt :: "string \<Rightarrow> jsnum" where
  "parseInt inputString =
     (let S = dropWhile StrWhiteSpaceChar inputString;
          sign = (if take 1 S = ''-'' then - 1 else 1 :: int);
          S = (if take 1 S = ''+'' \<or> take 1 S = ''-'' then drop 1 S else S);
          hex = (take 2 S = ''0x'' \<or> take 2 S = ''0X'');
          R = (if hex then 16 else 10);
          S = (if hex then drop 2 S else S);
          Z = takeWhile (radix_digit R) S
      in if Z = [] then NaN else Num (sign * int (radix_value R Z)))"

subsection \<open>Number to string and back\<close>

definition digit_char :: "nat \<Rightarrow> char" where
  "digit_char d = char_of (48 + d)"

function decimal :: "nat \<Rightarrow> string" where
  "decimal n = (if n < 10 then [digit_char n] else decimal (n div 10) @ [digit_char (n mod 10)])"
  by pat_completeness auto
termination
  by (relation "measure id") auto

declare decimal.simps [simp del]

text \<open>\<open>Number.prototype.toString()\<close> on an integer or on \<open>NaN\<close>.\<close>

fun number_toString :: "jsnum \<Rightarrow> string" where
  "number_toString NaN = ''NaN''"
| "number_toString (Num n) = (if n < 0 then ''-'' @ decimal (nat (- n)) else decimal (nat n))"

text \<open>
  \<open>Number(s)\<close>, by which the store casts a string operand of a numeric path, on the
  strings that \<open>number_toString\<close> produces: an optional minus sign and decimal digits give
  the integer, anything else (\<open>"NaN"\<close> among them) gives \<open>NaN\<close>. The other numeric
  literal forms do not reach the cast and are not modelled.
\<close>

definition string_to_number :: "string \<Rightarrow> jsnum" where
  "string_to_number s =
     (let neg = (take 1 s = ''-'');
          ds = (if neg then drop 1 s else s)
      in if ds \<noteq> [] \<and> list_all (radix_digit 10) ds
         then Num ((if neg then - 1 else 1) * int (radix_value 10 ds))
         else NaN)"

text \<open>Comparisons with \<open>NaN\<close> are false.\<close>

fun num_le :: "jsnum \<Rightarrow> jsnum \<Rightarrow> bool" where
  "num_le (Num a) (Num b) = (a \<le> b)"
| "num_le _ _ = False"

fun num_eq :: "jsnum \<Rightarrow> jsnum \<Rightarrow> bool" where
  "num_eq (Num a) (Num b) = (a = b)"
| "num_eq _ _ = False"

subsection \<open>Arithmetic on numbers\<close>

text \<open>
  A JavaScript number in arithmetic: a finite double, given by its value, an infinity or
  \<open>NaN\<close>. The sign of zero is not modelled. A product is the exact product rounded to
  the nearest double.
\<close>

datatype number = Finite rat | PosInfinity | NegInfinity | NotANumber

text \<open>\<open>2\<close> to an integer power.\<close>

definition pow2 :: "int \<Rightarrow> rat" where
  "pow2 e = (if 0 \<le> e then 2 ^ nat e else 1 / 2 ^ nat (- e))"

text \<open>The nearest integer, the even one of two at the same distance.\<close>

definition round_half_even :: "rat \<Rightarrow> int" where
  "round_half_even y =
     (let f = \<lfloor>y\<rfloor>; d = y - of_int f
      in if d < 1 / 2 then f else if 1 / 2 < d then f + 1 else if even f then f else f + 1)"

text \<open>
  The binary exponent of a non-zero rational: the greatest \<open>e\<close> with
  \<open>2 ^ e \<le> \<bar>x\<bar>\<close>, found from the bit lengths of numerator and denominator.
\<close>

definition exponent :: "rat \<Rightarrow> int" where
  "exponent x =
     (let (p, q) = quotient_of \<bar>x\<bar>; e = bitlen p - bitlen q
      in if pow2 e \<le> \<bar>x\<bar> then e else e - 1)"

text \<open>
  The double nearest to a rational, ties to even: 53 significant bits from the binary
  exponent down, exponents below \<open>- 1022\<close> sharing the spacing of \<open>- 1022\<close>, and an
  infinity once the rounded value reaches \<open>2 ^ 1024\<close>.
\<close>

definition round_double :: "rat \<Rightarrow> number" where
  "round_double x =
     (if x = 0 then Finite 0
      else let e = max (exponent x) (- 1022);
               ulp = pow2 (e - 52);
               r = of_int (round_half_even (x / ulp)) * ulp
           in if pow2 1024 \<le> \<bar>r\<bar> then (if 0 < x then PosInfinity else NegInfinity)
              else Finite r)"

text \<open>The operator \<open>*\<close> on numbers.\<close>

fun js_times :: "number \<Rightarrow> number \<Rightarrow> number" where
  "js_times NotANumber _ = NotANumber"
| "js_times _ NotANumber = NotANumber"
| "js_times (Finite x) (Finite y) = round_double (x * y)"
| "js_times (Finite x) PosInfinity =
     (if x = 0 then NotANumber else if 0 < x then PosInfinity else NegInfinity)"
| "js_times (Finite x) NegInfinity =
     (if x = 0 then NotANumber else if 0 < x then NegInfinity else PosInfinity)"
| "js_times PosInfinity (Finite y) =
     (if y = 0 then NotANumber else if 0 < y then PosInfinity else NegInfinity)"
| "js_times NegInfinity (Finite y) =
     (if y = 0 then NotANumber else if 0 < y then NegInfinity else PosInfinity)"
| "js_times PosInfinity PosInfinity = PosInfinity"
| "js_times PosInfinity NegInfinity = NegInfinity"
| "js_times NegInfinity PosInfinity = NegInfinity"
| "js_times NegInfinity NegInfinity = PosInfinity"

declare js_times.simps [simp del]

section \<open>Data model\<close>

text \<open>
  A booking is the JSON object the confirmation route builds: its keys and values, in
  order.
\<close>

type_synonym booking = "(string \<times> jsval) list"

text \<open>
  Modelled from the spec: the hotel schema (\<open>models/hotel\<close>, \<open>shared/types\<close>) is not
  among the sources. A hotel document has an opaque id, city, country and type as text,
  an integer star rating, a numeric price per night (a finite number, given by its
  value), adult and child
  capacities, facility tags and an ordered sequence of bookings. The remaining attributes
  of a hotel (name, description, images, owner) are carried by the store unchanged and
  read by no route.
\<close>

record hotel =
  hotel_id :: string
  city :: string
  country :: string
  type :: string
  adultCount :: int
  childCount :: int
  facilities :: "string list"
  starRating :: int
  pricePerNight :: rat
  bookings :: "booking list"

text \<open>
  What the payment-intent route sends to the processor, and the intent the processor
  holds: the same amount, currency and metadata with an id, a client secret (possibly
  \<open>null\<close>) and a status.
\<close>

record create_params =
  amount :: number
  currency :: string
  metadata :: "(string \<times> string) list"

record payment_intent = create_params +
  intent_id :: string
  client_secret :: "string option"
  status :: string

text \<open>An awaited call either resolves to a value or rejects (throws at the \<open>await\<close>).\<close>

datatype 'a promise = Resolved 'a | Rejected

datatype js_error = SyntaxError

datatype regexp = RegExp (source: string) (flags: string)

section \<open>The search query\<close>

text \<open>
  The object built by \<open>constructSearchQuery\<close>: one optional entry per key. \<open>None\<close> is
  an absent key. The entries are, in order, \<open>$or: [{city: re}, {country: re}]\<close>,
  \<open>adultCount: {$gte: n}\<close>, \<open>childCount: {$gte: n}\<close>, \<open>facilities: {$all: [...]}\<close>,
  \<open>type: {$in: [...]}\<close>, \<open>starRating: {$in: n | [...]}\<close> and
  \<open>pricePerNight: {$lte: "n"}\<close>.
\<close>

datatype in_operand = One jsnum | Many "jsnum list"

record search_query =
  q_or :: "(string \<times> regexp) list option"
  q_adultCount_gte :: "jsnum option"
  q_childCount_gte :: "jsnum option"
  q_facilities_all :: "string list option"
  q_type_in :: "string list option"
  q_starRating_in :: "in_operand option"
  q_pricePerNight_lte :: "string option"

definition empty_query :: search_query where
  "empty_query = \<lparr>q_or = None, q_adultCount_gte = None, q_childCount_gte = None,
     q_facilities_all = None, q_type_in = None, q_starRating_in = None,
     q_pricePerNight_lte = None\<rparr>"

record query_params =
  destination :: "qs option"
  adultCount_param :: "qs option"
  childCount_param :: "qs option"
  facilities_param :: "qs option"
  types :: "qs option"
  stars :: "qs option"
  maxPrice :: "qs option"
  sortOption :: "qs option"
  page_param :: "qs option"

section \<open>The environment of the routes\<close>

datatype store_call =
    FindById string
  | Find search_query
  | CountDocuments search_query
  | FindOneAndUpdate string
  | Save string

text \<open>
  Everything outside the repository that a route depends on:
  \<^item> \<open>regexp_accepts p f\<close>: the runtime's \<open>new RegExp(p, f)\<close> returns (it throws a
    \<open>SyntaxError\<close> on a malformed pattern);
  \<^item> \<open>regexp_test re s\<close>: the store finds a match of the regular expression in the text \<open>s\<close>;
  \<^item> \<open>store_rejects c\<close>: the store call \<open>c\<close> rejects (the database is unreachable, or it
    cannot cast an argument, such as an id that is not an object id);
  \<^item> \<open>stripe_create\<close> and \<open>stripe_retrieve\<close>: the answers of the payment processor.
\<close>

record env =
  regexp_accepts :: "string \<Rightarrow> string \<Rightarrow> bool"
  regexp_test :: "regexp \<Rightarrow> string \<Rightarrow> bool"
  store_rejects :: "store_call \<Rightarrow> bool"
  stripe_create :: "create_params \<Rightarrow> payment_intent promise"
  stripe_retrieve :: "jsval option \<Rightarrow> payment_intent option promise"

text \<open>
  The state the routes change: the hotel collection, and the intents requested from the
  processor so far (oldest first).
\<close>

record world =
  collection :: "hotel list"
  intents_requested :: "create_params list"

section \<open>The store\<close>

text \<open>
  The operations of the document store that the routes call, on the hotel collection.
  Each may reject instead of answering.
\<close>

definition findById :: "env \<Rightarrow> world \<Rightarrow> string \<Rightarrow> hotel option promise" where
  "findById env w i =
     (if store_rejects env (FindById i) then Rejected
      else Resolved (find (\<lambda>h. hotel_id h = i) (collection w)))"

fun text_path :: "hotel \<Rightarrow> string \<Rightarrow> string option" where
  "text_path h p =
     (if p = ''city'' then Some (city h)
      else if p = ''country'' then Some (country h)
      else None)"

text \<open>
  Whether a hotel satisfies one entry of a search query; an absent entry holds. \<open>$or\<close>
  holds when one of its clauses does, a clause asking for a match of its regular
  expression in the text at its path; \<open>$gte\<close> and \<open>$lte\<close> compare numbers, a string
  operand of the numeric path \<open>pricePerNight\<close> being cast to a number first; \<open>$all\<close>
  asks for every listed element in the hotel's array; \<open>$in\<close> asks for the hotel's value
  among the operands, a single operand standing for the list of that one.
\<close>

definition or_holds :: "env \<Rightarrow> (string \<times> regexp) list option \<Rightarrow> hotel \<Rightarrow> bool" where
  "or_holds env entry h =
     (case entry of
        None \<Rightarrow> True
      | Some clauses \<Rightarrow>
          list_ex (\<lambda>(p, re). case text_path h p of
                                None \<Rightarrow> False
                              | Some s \<Rightarrow> regexp_test env re s) clauses)"

definition gte_holds :: "jsnum option \<Rightarrow> int \<Rightarrow> bool" where
  "gte_holds entry v = (case entry of None \<Rightarrow> True | Some n \<Rightarrow> num_le n (Num v))"

definition lte_holds :: "string option \<Rightarrow> rat \<Rightarrow> bool" where
  "lte_holds entry v =
     (case entry of
        None \<Rightarrow> True
      | Some s \<Rightarrow> (case string_to_number s of NaN \<Rightarrow> False | Num n \<Rightarrow> v \<le> of_int n))"

definition all_holds :: "string list option \<Rightarrow> string list \<Rightarrow> bool" where
  "all_holds entry vs =
     (case entry of None \<Rightarrow> True | Some fs \<Rightarrow> list_all (\<lambda>f. f \<in> set vs) fs)"

definition in_holds :: "string list option \<Rightarrow> string \<Rightarrow> bool" where
  "in_holds entry v = (case entry of None \<Rightarrow> True | Some ts \<Rightarrow> v \<in> set ts)"

definition in_numbers_holds :: "in_operand option \<Rightarrow> int \<Rightarrow> bool" where
  "in_numbers_holds entry v =
     (case entry of
        None \<Rightarrow> True
      | Some (One n) \<Rightarrow> num_eq n (Num v)
      | Some (Many ns) \<Rightarrow> list_ex (\<lambda>n. num_eq n (Num v)) ns)"

text \<open>A hotel satisfies a search query when every entry holds.\<close>

definition hotel_matches :: "env \<Rightarrow> search_query \<Rightarrow> hotel \<Rightarrow> bool" where
  "hotel_matches env q h =
     (or_holds env (q_or q) h \<and>
      gte_holds (q_adultCount_gte q) (adultCount h) \<and>
      gte_holds (q_childCount_gte q) (childCount h) \<and>
      all_holds (q_facilities_all q) (facilities h) \<and>
      in_holds (q_type_in q) (type h) \<and>
      in_numbers_holds (q_starRating_in q) (starRating h) \<and>
      lte_holds (q_pricePerNight_lte q) (pricePerNight h))"

text \<open>
  The sort options of the search route: \<open>{}\<close>, \<open>{starRating: -1}\<close>,
  \<open>{pricePerNight: 1}\<close> or \<open>{pricePerNight: -1}\<close>.
\<close>

datatype sort_path = StarRating | PricePerNight

type_synonym sort_options = "(sort_path \<times> int) option"

fun sort_value :: "sort_path \<Rightarrow> hotel \<Rightarrow> rat" where
  "sort_value StarRating h = of_int (starRating h)"
| "sort_value PricePerNight h = pricePerNight h"

fun apply_sort :: "sort_options \<Rightarrow> hotel list \<Rightarrow> hotel list" where
  "apply_sort None hs = hs"
| "apply_sort (Some (p, d)) hs =
     (if d < 0 then sort_key (\<lambda>h. - sort_value p h) hs else sort_key (sort_value p) hs)"

text \<open>
  \<open>Hotel.find(query).sort(sortOptions).skip(skip).limit(limit)\<close>. The store refuses a
  skip that is not a non-negative number.
\<close>

definition find_page ::
  "env \<Rightarrow> world \<Rightarrow> search_query \<Rightarrow> sort_options \<Rightarrow> jsnum \<Rightarrow> nat \<Rightarrow> hotel list promise" where
  "find_page env w q sortOptions skip limit =
     (if store_rejects env (Find q) then Rejected
      else case skip of
             NaN \<Rightarrow> Rejected
           | Num k \<Rightarrow>
               if k < 0 then Rejected
               else Resolved (take limit (drop (nat k)
                      (apply_sort sortOptions (filter (hotel_matches env q) (collection w))))))"

definition countDocuments :: "env \<Rightarrow> world \<Rightarrow> search_query \<Rightarrow> nat promise" where
  "countDocuments env w q =
     (if store_rejects env (CountDocuments q) then Rejected
      else Resolved (length (filter (hotel_matches env q) (collection w))))"

fun push_booking :: "string \<Rightarrow> booking \<Rightarrow> hotel list \<Rightarrow> hotel list" where
  "push_booking i b [] = []"
| "push_booking i b (h # hs) =
     (if hotel_id h = i then h\<lparr>bookings := bookings h @ [b]\<rparr> # hs
      else h # push_booking i b hs)"

text \<open>
  \<open>Hotel.findOneAndUpdate({_id: i}, {$push: {bookings: b}})\<close>: appends to the bookings
  of the hotel with that id and resolves to the document as it was before the update, or
  to \<open>null\<close>, changing nothing, when no hotel has the id. The element appended is the
  object the route passes; what the booking schema does to its keys is not modelled.
\<close>

definition findOneAndUpdate_push ::
  "env \<Rightarrow> string \<Rightarrow> booking \<Rightarrow> world \<Rightarrow> (hotel option \<times> world) promise" where
  "findOneAndUpdate_push env i b w =
     (if store_rejects env (FindOneAndUpdate i) then Rejected
      else Resolved (find (\<lambda>h. hotel_id h = i) (collection w),
                     w\<lparr>collection := push_booking i b (collection w)\<rparr>))"

text \<open>
  \<open>hotel.save()\<close> on the document \<open>findOneAndUpdate\<close> returned: nothing of it was
  modified, so the collection stays as it is; the call can still reject.
\<close>

definition save :: "env \<Rightarrow> hotel \<Rightarrow> world \<Rightarrow> world promise" where
  "save env h w = (if store_rejects env (Save (hotel_id h)) then Rejected else Resolved w)"

section \<open>constructSearchQuery\<close>

definition new_RegExp :: "env \<Rightarrow> string \<Rightarrow> string \<Rightarrow> js_error + regexp" where
  "new_RegExp env pattern fl =
     (if regexp_accepts env pattern fl then Inr (RegExp pattern fl) else Inl SyntaxError)"

text \<open>\<open>if (param) { ... }\<close>: the block runs on a truthy parameter only.\<close>

definition if_param :: "qs option \<Rightarrow> (qs \<Rightarrow> 'a \<Rightarrow> 'a) \<Rightarrow> 'a \<Rightarrow> 'a" where
  "if_param param block constructQuery =
     (case param of
        None \<Rightarrow> constructQuery
      | Some v \<Rightarrow> if truthy v then block v constructQuery else constructQuery)"

fun string_array :: "qs \<Rightarrow> string list" where
  "string_array (QArr xs) = xs"
| "string_array (QStr s) = [s]"

fun starRatings :: "qs \<Rightarrow> in_operand" where
  "starRatings (QArr xs) = Many (map (\<lambda>star. parseInt star) xs)"
| "starRatings (QStr s) = One (parseInt s)"

text \<open>The value of a parameter that is present and truthy.\<close>

definition supplied :: "qs option \<Rightarrow> qs option" where
  "supplied param =
     (case param of None \<Rightarrow> None | Some v \<Rightarrow> if truthy v then Some v else None)"

text \<open>
  The first block, \<open>if (queryParams.destination) { constructQuery.$or = [...] }\<close>, on
  the empty query: the two regular expressions are constructed one after the other, and
  the constructor may throw.
\<close>

definition destination_entry :: "env \<Rightarrow> query_params \<Rightarrow> js_error + search_query" where
  "destination_entry env queryParams =
     (case destination queryParams of
        None \<Rightarrow> Inr empty_query
      | Some d \<Rightarrow>
          if truthy d
          then (case new_RegExp env (toString d) ''i'' of
                  Inl e \<Rightarrow> Inl e
                | Inr re1 \<Rightarrow>
                    (case new_RegExp env (toString d) ''i'' of
                       Inl e \<Rightarrow> Inl e
                     | Inr re2 \<Rightarrow>
                         Inr (empty_query\<lparr>q_or := Some [(''city'', re1), (''country'', re2)]\<rparr>)))
          else Inr empty_query)"

definition constructSearchQuery :: "env \<Rightarrow> query_params \<Rightarrow> js_error + search_query" where
  "constructSearchQuery env queryParams =
     (case destination_entry env queryParams of
        Inl e \<Rightarrow> Inl e
      | Inr constructQuery \<Rightarrow>
          (let constructQuery = if_param (adultCount_param queryParams)
                 (\<lambda>v q. q\<lparr>q_adultCount_gte := Some (parseInt (toString v))\<rparr>) constructQuery;
               constructQuery = if_param (childCount_param queryParams)
                 (\<lambda>v q. q\<lparr>q_childCount_gte := Some (parseInt (toString v))\<rparr>) constructQuery;
               constructQuery = if_param (facilities_param queryParams)
                 (\<lambda>v q. q\<lparr>q_facilities_all := Some (string_array v)\<rparr>) constructQuery;
               constructQuery = if_param (types queryParams)
                 (\<lambda>v q. q\<lparr>q_type_in := Some (string_array v)\<rparr>) constructQuery;
               constructQuery = if_param (stars queryParams)
                 (\<lambda>v q. q\<lparr>q_starRating_in := Some (starRatings v)\<rparr>) constructQuery;
               constructQuery = if_param (maxPrice queryParams)
                 (\<lambda>v q. q\<lparr>q_pricePerNight_lte := Some (number_toString (parseInt (toString v)))\<rparr>)
                 constructQuery
           in Inr constructQuery))"

section \<open>Requests and responses\<close>

record search_response =
  data :: "hotel list"
  total :: nat
  page :: jsnum
  pages :: int

record payment_response =
  paymentIntentId :: string
  clientSecret :: string
  totalCost :: number

datatype payload =
    Message string
  | Validation_errors "string list"
  | Hotel_json "hotel option"
  | Search_json search_response
  | Payment_json payment_response
  | Empty

record response =
  code :: nat
  payload :: payload

text \<open>
  What a route does with a request: it sends a response, or a rejection escapes it and no
  response is sent by the route.
\<close>

datatype outcome = Responded response | Unhandled

text \<open>
  Modelled from the spec: \<open>verifyToken\<close> (\<open>middleware/auth\<close>) is not among the
  sources; it lets a request through to the route only with the authenticated user's id
  on it. A request that passed it carries the path's hotel id and that user id. The
  payment-intent route multiplies by the body's \<open>numberOfNights\<close>, which nothing
  validates: its request carries the number the multiplication reads from that field,
  \<open>NotANumber\<close> when the field is absent or not numeric. The confirmation route reads
  the whole body.
\<close>

record auth_request =
  hotelId :: string
  userId :: string

record payment_intent_request = auth_request +
  numberOfNights :: number

record booking_request = auth_request +
  body :: "(string \<times> jsval) list"

section \<open>GET /search\<close>

fun sort_options_of :: "qs option \<Rightarrow> sort_options" where
  "sort_options_of (Some (QStr s)) =
     (if s = ''starRating'' then Some (StarRating, - 1)
      else if s = ''pricePerNightAsc'' then Some (PricePerNight, 1)
      else if s = ''pricePerNightDesc'' then Some (PricePerNight, - 1)
      else None)"
| "sort_options_of _ = None"

fun num_minus :: "jsnum \<Rightarrow> jsnum \<Rightarrow> jsnum" where
  "num_minus (Num a) (Num b) = Num (a - b)"
| "num_minus _ _ = NaN"

fun num_times :: "jsnum \<Rightarrow> jsnum \<Rightarrow> jsnum" where
  "num_times (Num a) (Num b) = Num (a * b)"
| "num_times _ _ = NaN"

text \<open>\<open>Math.ceil(total / pageSize)\<close> on a count and a positive page size.\<close>

definition Math_ceil_div :: "nat \<Rightarrow> nat \<Rightarrow> int" where
  "Math_ceil_div n d = \<lceil>(of_nat n :: rat) / of_nat d\<rceil>"

text \<open>\<open>req.query.page ? req.query.page.toString() : "1"\<close>\<close>

definition page_string :: "query_params \<Rightarrow> string" where
  "page_string query =
     (case page_param query of
        None \<Rightarrow> ''1''
      | Some p \<Rightarrow> if truthy p then toString p else ''1'')"

definition get_search :: "env \<Rightarrow> query_params \<Rightarrow> world \<Rightarrow> outcome" where
  "get_search env query w =
     (case constructSearchQuery env query of
        Inl error \<Rightarrow> Responded \<lparr>code = 500, payload = Message ''Error searching!''\<rparr>
      | Inr q \<Rightarrow>
          (let sortOptions = sort_options_of (sortOption query);
               pageSize = 3;
               currentPage = parseInt (page_string query);
               skip = num_times (num_minus currentPage (Num 1)) (Num (int pageSize))
           in case find_page env w q sortOptions skip pageSize of
                Rejected \<Rightarrow> Responded \<lparr>code = 500, payload = Message ''Error searching!''\<rparr>
              | Resolved hotels \<Rightarrow>
                  (case countDocuments env w q of
                     Rejected \<Rightarrow>
                       Responded \<lparr>code = 500, payload = Message ''Error searching!''\<rparr>
                   | Resolved total' \<Rightarrow>
                       Responded \<lparr>code = 200, payload = Search_json
                         \<lparr>data = hotels, total = total', page = currentPage,
                          pages = Math_ceil_div total' pageSize\<rparr>\<rparr>)))"

section \<open>GET /:id\<close>

text \<open>
  The validation chain \<open>param("id").notEmpty()\<close> leaves one error, with its message,
  when the id is empty.
\<close>

definition validationResult :: "string \<Rightarrow> string list" where
  "validationResult i = (if i = [] then [''Hotel ID is required''] else [])"

definition get_hotel :: "env \<Rightarrow> string \<Rightarrow> world \<Rightarrow> outcome" where
  "get_hotel env i w =
     (let errors = validationResult i
      in if errors \<noteq> [] then Responded \<lparr>code = 400, payload = Validation_errors errors\<rparr>
         else case findById env w i of
                Rejected \<Rightarrow> Responded \<lparr>code = 500, payload = Message ''Error fetching hotel''\<rparr>
              | Resolved hotel \<Rightarrow> Responded \<lparr>code = 200, payload = Hotel_json hotel\<rparr>)"

section \<open>POST /:hotelId/bookings/payment-intent\<close>

text \<open>A client secret is usable when it is neither \<open>null\<close> nor the empty string.\<close>

fun usable_secret :: "string option \<Rightarrow> string option" where
  "usable_secret None = None"
| "usable_secret (Some s) = (if s = [] then None else Some s)"

text \<open>
  The route has no \<open>try\<close> block: a rejection of the hotel lookup or of the processor
  call escapes it. The request to the processor is recorded in the world before the
  processor answers.
\<close>

definition post_payment_intent ::
  "env \<Rightarrow> payment_intent_request \<Rightarrow> world \<Rightarrow> outcome \<times> world" where
  "post_payment_intent env req w =
     (case findById env w (hotelId req) of
        Rejected \<Rightarrow> (Unhandled, w)
      | Resolved None \<Rightarrow> (Responded \<lparr>code = 400, payload = Message ''Hotel not found''\<rparr>, w)
      | Resolved (Some hotel) \<Rightarrow>
          (let totalCost = js_times (Finite (pricePerNight hotel)) (numberOfNights req);
               params = \<lparr>amount = js_times totalCost (Finite 100), currency = ''usd'',
                         metadata = [(''hotelId'', hotelId req), (''userId'', userId req)]\<rparr>;
               w' = w\<lparr>intents_requested := intents_requested w @ [params]\<rparr>
           in case stripe_create env params of
                Rejected \<Rightarrow> (Unhandled, w')
              | Resolved paymentIntent \<Rightarrow>
                  (case usable_secret (client_secret paymentIntent) of
                     None \<Rightarrow>
                       (Responded \<lparr>code = 500,
                                   payload = Message ''Error creating payment intent''\<rparr>, w')
                   | Some secret \<Rightarrow>
                       (Responded \<lparr>code = 200, payload = Payment_json
                          \<lparr>paymentIntentId = intent_id paymentIntent,
                           clientSecret = secret, totalCost = totalCost\<rparr>\<rparr>, w'))))"

section \<open>POST /:hotelId/bookings\<close>

text \<open>
  \<open>{...req.body, userId: req.userId}\<close>: the body's keys with \<open>userId\<close> set to the
  authenticated user's id, in the body's place when the body has the key and at the end
  otherwise.
\<close>

definition newBooking :: "booking_request \<Rightarrow> booking" where
  "newBooking req = AList.update ''userId'' (JStr (userId req)) (body req)"

definition post_bookings :: "env \<Rightarrow> booking_request \<Rightarrow> world \<Rightarrow> outcome \<times> world" where
  "post_bookings env req w =
     (case stripe_retrieve env (map_of (body req) ''paymentIntentId'') of
        Rejected \<Rightarrow> (Responded \<lparr>code = 500, payload = Message ''something went wrong''\<rparr>, w)
      | Resolved None \<Rightarrow>
          (Responded \<lparr>code = 400, payload = Message ''payment intent not found''\<rparr>, w)
      | Resolved (Some paymentIntent) \<Rightarrow>
          if map_of (metadata paymentIntent) ''hotelId'' \<noteq> Some (hotelId req) \<or>
             map_of (metadata paymentIntent) ''userId'' \<noteq> Some (userId req)
          then (Responded \<lparr>code = 400, payload = Message ''payment intent mismatch''\<rparr>, w)
          else if status paymentIntent \<noteq> ''succeeded''
          then (Responded \<lparr>code = 400, payload = Message
                  (''payment intent not succeeded. Status: '' @ status paymentIntent)\<rparr>, w)
          else (case findOneAndUpdate_push env (hotelId req) (newBooking req) w of
                  Rejected \<Rightarrow>
                    (Responded \<lparr>code = 500, payload = Message ''something went wrong''\<rparr>, w)
                | Resolved (None, w') \<Rightarrow>
                    (Responded \<lparr>code = 400, payload = Message ''hotel not found''\<rparr>, w')
                | Resolved (Some hotel, w') \<Rightarrow>
                    (case save env hotel w' of
                       Rejected \<Rightarrow>
                         (Responded \<lparr>code = 500,
                                     payload = Message ''something went wrong''\<rparr>, w')
                     | Resolved w'' \<Rightarrow> (Responded \<lparr>code = 200, payload = Empty\<rparr>, w''))))"

section \<open>Regular expressions without operators\<close>

text \<open>
  The regular expressions whose pattern uses none of the syntax characters
  \<open>^ $ \ . * + ? ( ) [ ] { } |\<close> except the dot: every other character stands for
  itself, compared after case folding under the flag \<open>i\<close>, and the dot stands for any
  character that is not a line terminator. Texts are taken to be ASCII: case folding maps
  the letters \<open>a\<close> to \<open>z\<close> to \<open>A\<close> to \<open>Z\<close> and nothing else.
\<close>

definition SyntaxCharacter :: "char \<Rightarrow> bool" where
  "SyntaxCharacter c =
     (c \<in> set [CHR ''^'', CHR ''$'', CHR 0x5C, CHR ''.'', CHR ''*'', CHR ''+'', CHR ''?'',
               CHR ''('', CHR '')'', CHR ''['', CHR '']'', CHR ''{'', CHR ''}'', CHR ''|''])"

definition LineTerminator :: "char \<Rightarrow> bool" where
  "LineTerminator c = (c = CHR 0x0A \<or> c = CHR 0x0D)"

definition Canonicalize :: "char \<Rightarrow> char" where
  "Canonicalize c =
     (let n = (of_char c :: nat) in if 97 \<le> n \<and> n \<le> 122 then char_of (n - 32) else c)"

definition plain :: "string \<Rightarrow> bool" where
  "plain p = list_all (\<lambda>c. \<not> SyntaxCharacter c) p"

definition plain_or_dot :: "string \<Rightarrow> bool" where
  "plain_or_dot p = list_all (\<lambda>c. \<not> SyntaxCharacter c \<or> c = CHR ''.'') p"

fun match_atom :: "char \<Rightarrow> char \<Rightarrow> bool" where
  "match_atom p c =
     (if p = CHR ''.'' then \<not> LineTerminator c else Canonicalize p = Canonicalize c)"

text \<open>The pattern matches at the start of the text.\<close>

fun match_here :: "string \<Rightarrow> string \<Rightarrow> bool" where
  "match_here [] s = True"
| "match_here (p # ps) [] = False"
| "match_here (p # ps) (c # cs) = (match_atom p c \<and> match_here ps cs)"

text \<open>The pattern matches somewhere in the text.\<close>

fun match_anywhere :: "string \<Rightarrow> string \<Rightarrow> bool" where
  "match_anywhere p [] = match_here p []"
| "match_anywhere p (c # cs) = (match_here p (c # cs) \<or> match_anywhere p cs)"

text \<open>
  An environment's regular expressions follow ECMAScript on these patterns: the
  constructor accepts each of them with the flag \<open>i\<close>, and the expression is found in a
  text exactly when the pattern matches somewhere in it.
\<close>

definition ecmascript_regexps :: "env \<Rightarrow> bool" where
  "ecmascript_regexps env =
     (\<forall>p. plain_or_dot p \<longrightarrow>
        regexp_accepts env p ''i'' \<and>
        (\<forall>s. regexp_test env (RegExp p ''i'') s = match_anywhere p s))"

section \<open>Example data\<close>

definition hotel_A :: hotel where
  "hotel_A = \<lparr>hotel_id = ''A'', city = ''abc'', country = ''Vietnam'', type = ''Resort'',
     adultCount = 2, childCount = 1, facilities = [''Free WiFi'', ''Parking''],
     starRating = 4, pricePerNight = 200, bookings = []\<rparr>"

definition hotel_B :: hotel where
  "hotel_B = \<lparr>hotel_id = ''B'', city = ''Paris'', country = ''France'', type = ''Budget'',
     adultCount = 4, childCount = 0, facilities = [''Parking''],
     starRating = 3, pricePerNight = 90, bookings = []\<rparr>"

text \<open>A search request with no parameter.\<close>

definition no_params :: query_params where
  "no_params = \<lparr>destination = None, adultCount_param = None, childCount_param = None,
     facilities_param = None, types = None, stars = None, maxPrice = None,
     sortOption = None, page_param = None\<rparr>"

definition example_world :: world where
  "example_world = \<lparr>collection = [hotel_A, hotel_B], intents_requested = []\<rparr>"

text \<open>Seven hotels that differ in their id only.\<close>

definition seven_hotels :: world where
  "seven_hotels =
     \<lparr>collection = map (\<lambda>i. hotel_B\<lparr>hotel_id := i\<rparr>)
        [''1'', ''2'', ''3'', ''4'', ''5'', ''6'', ''7''],
      intents_requested = []\<rparr>"

definition intent_1 :: payment_intent where
  "intent_1 = \<lparr>amount = Finite 60000, currency = ''usd'',
     metadata = [(''hotelId'', ''A''), (''userId'', ''u1'')],
     intent_id = ''pi_1'', client_secret = Some ''pi_1_secret'', status = ''succeeded''\<rparr>"

definition intent_2 :: payment_intent where
  "intent_2 = intent_1\<lparr>intent_id := ''pi_2'', client_secret := Some ''pi_2_secret'',
     status := ''requires_payment_method''\<rparr>"

text \<open>
  An environment for the examples. Its regular expressions are those without operators
  (it accepts no other pattern, and stands for no real engine there); its store rejects
  the lookup of the id \<open>xyz\<close>, which is not an object id, and nothing else; its processor
  creates every intent asked for, with a client secret, and holds the succeeded intent
  \<open>pi_1\<close> and the unpaid intent \<open>pi_2\<close>.
\<close>

definition example_env :: env where
  "example_env =
     \<lparr>regexp_accepts = (\<lambda>p f. plain_or_dot p \<and> f = ''i''),
      regexp_test = (\<lambda>re s. match_anywhere (source re) s),
      store_rejects = (\<lambda>c. c = FindById ''xyz''),
      stripe_create = (\<lambda>params. Resolved
         \<lparr>amount = amount params, currency = currency params, metadata = metadata params,
          intent_id = ''pi_3'', client_secret = Some ''pi_3_secret'',
          status = ''requires_payment_method''\<rparr>),
      stripe_retrieve = (\<lambda>i. if i = Some (JStr ''pi_1'') then Resolved (Some intent_1)
                              else if i = Some (JStr ''pi_2'') then Resolved (Some intent_2)
                              else Rejected)\<rparr>"

text \<open>The same environment with the processor unreachable.\<close>

definition processor_down :: env where
  "processor_down = example_env\<lparr>stripe_create := (\<lambda>params. Rejected)\<rparr>"

section \<open>Booking confirmation\<close>

lemma push_booking_absent:
  "find (\<lambda>h. hotel_id h = i) hs = None \<Longrightarrow> push_booking i b hs = hs"
  by (induction hs) (auto split: if_splits)

lemma push_booking_present:
  "find (\<lambda>h. hotel_id h = i) hs = Some h \<Longrightarrow>
   find (\<lambda>h. hotel_id h = i) (push_booking i b hs) = Some (h\<lparr>bookings := bookings h @ [b]\<rparr>)"
  by (induction hs) (auto split: if_splits)

lemma push_booking_others:
  "j \<noteq> i \<Longrightarrow>
   find (\<lambda>h. hotel_id h = j) (push_booking i b hs) = find (\<lambda>h. hotel_id h = j) hs"
  by (induction hs) (auto split: if_splits)

text \<open>
  C1. Whatever the confirmation route answers, the hotel collection changes only if the
  processor returned an intent for the body's payment intent id, the intent's metadata
  carries the path's hotel id and the authenticated user's id, and its status is
  \<open>succeeded\<close>; the change is then the append of the new booking to the hotel with the
  path's id. When the processor returns no intent, or an intent whose metadata differs in
  the hotel id or in the user id, or a matching intent whose status is not \<open>succeeded\<close>,
  the route answers 400 and the world is unchanged; in the last case the message ends
  with the intent's actual status.
\<close>

theorem booking_only_after_verified_payment:
  assumes "post_bookings env req w = (out, w')"
  shows
   "(collection w' \<noteq> collection w \<longrightarrow>
      (\<exists>paymentIntent h.
          stripe_retrieve env (map_of (body req) ''paymentIntentId'') =
            Resolved (Some paymentIntent) \<and>
          map_of (metadata paymentIntent) ''hotelId'' = Some (hotelId req) \<and>
          map_of (metadata paymentIntent) ''userId'' = Some (userId req) \<and>
          status paymentIntent = ''succeeded'' \<and>
          find (\<lambda>h. hotel_id h = hotelId req) (collection w) = Some h \<and>
          collection w' = push_booking (hotelId req) (newBooking req) (collection w))) \<and>
    (stripe_retrieve env (map_of (body req) ''paymentIntentId'') = Resolved None \<longrightarrow>
       out = Responded \<lparr>code = 400, payload = Message ''payment intent not found''\<rparr> \<and>
       w' = w) \<and>
    (\<forall>paymentIntent.
       stripe_retrieve env (map_of (body req) ''paymentIntentId'') =
         Resolved (Some paymentIntent) \<and>
       (map_of (metadata paymentIntent) ''hotelId'' \<noteq> Some (hotelId req) \<or>
        map_of (metadata paymentIntent) ''userId'' \<noteq> Some (userId req)) \<longrightarrow>
       out = Responded \<lparr>code = 400, payload = Message ''payment intent mismatch''\<rparr> \<and>
       w' = w) \<and>
    (\<forall>paymentIntent.
       stripe_retrieve env (map_of (body req) ''paymentIntentId'') =
         Resolved (Some paymentIntent) \<and>
       map_of (metadata paymentIntent) ''hotelId'' = Some (hotelId req) \<and>
       map_of (metadata paymentIntent) ''userId'' = Some (userId req) \<and>
       status paymentIntent \<noteq> ''succeeded'' \<longrightarrow>
       out = Responded \<lparr>code = 400, payload = Message
               (''payment intent not succeeded. Status: '' @ status paymentIntent)\<rparr> \<and>
       w' = w)"
  using assms
  by (auto simp: post_bookings_def findOneAndUpdate_push_def save_def push_booking_absent
           split: promise.splits option.splits if_splits prod.splits)

text \<open>
  The theorem at three requests: an intent of hotel \<open>A\<close> presented on the path of hotel
  \<open>B\<close>, an unpaid intent, and a succeeded intent, whose booking is appended.
\<close>

theorem booking_only_after_verified_payment_witness:
  "post_bookings example_env
     \<lparr>hotelId = ''B'', userId = ''u1'', body = [(''paymentIntentId'', JStr ''pi_1'')]\<rparr>
     example_world =
   (Responded \<lparr>code = 400, payload = Message ''payment intent mismatch''\<rparr>, example_world) \<and>
   post_bookings example_env
     \<lparr>hotelId = ''A'', userId = ''u1'', body = [(''paymentIntentId'', JStr ''pi_2'')]\<rparr>
     example_world =
   (Responded \<lparr>code = 400, payload = Message
      ''payment intent not succeeded. Status: requires_payment_method''\<rparr>, example_world) \<and>
   collection (snd (post_bookings example_env
     \<lparr>hotelId = ''A'', userId = ''u1'', body = [(''paymentIntentId'', JStr ''pi_1'')]\<rparr>
     example_world)) =
   [hotel_A\<lparr>bookings := [[(''paymentIntentId'', JStr ''pi_1''), (''userId'', JStr ''u1'')]]\<rparr>,
    hotel_B]"
proof -
  let ?reqB = "\<lparr>hotelId = ''B'', userId = ''u1'', body = [(''paymentIntentId'', JStr ''pi_1'')]\<rparr>"
  let ?reqA = "\<lparr>hotelId = ''A'', userId = ''u1'', body = [(''paymentIntentId'', JStr ''pi_2'')]\<rparr>"
  let ?req = "\<lparr>hotelId = ''A'', userId = ''u1'', body = [(''paymentIntentId'', JStr ''pi_1'')]\<rparr>"
  obtain out1 w1 where run1: "post_bookings example_env ?reqB example_world = (out1, w1)"
    by fastforce
  have "stripe_retrieve example_env (map_of (body ?reqB) ''paymentIntentId'') =
          Resolved (Some intent_1)"
    by (simp add: example_env_def)
  moreover have "map_of (metadata intent_1) ''hotelId'' \<noteq> Some (hotelId ?reqB)"
    by (simp add: intent_1_def)
  ultimately have 1: "out1 = Responded \<lparr>code = 400, payload = Message ''payment intent mismatch''\<rparr>
      \<and> w1 = example_world"
    using booking_only_after_verified_payment [OF run1] by blast
  obtain out2 w2 where run2: "post_bookings example_env ?reqA example_world = (out2, w2)"
    by fastforce
  have "stripe_retrieve example_env (map_of (body ?reqA) ''paymentIntentId'') =
          Resolved (Some intent_2)"
    by (simp add: example_env_def)
  moreover have "map_of (metadata intent_2) ''hotelId'' = Some (hotelId ?reqA)"
    "map_of (metadata intent_2) ''userId'' = Some (userId ?reqA)"
    "status intent_2 \<noteq> ''succeeded''" "status intent_2 = ''requires_payment_method''"
    by (simp_all add: intent_2_def intent_1_def)
  ultimately have 2: "out2 = Responded \<lparr>code = 400, payload = Message
      ''payment intent not succeeded. Status: requires_payment_method''\<rparr> \<and> w2 = example_world"
    using booking_only_after_verified_payment [OF run2] by auto
  obtain out3 w3 where run3: "post_bookings example_env ?req example_world = (out3, w3)"
    by fastforce
  then have "collection w3 \<noteq> collection example_world"
    by (auto simp: post_bookings_def findOneAndUpdate_push_def save_def example_env_def
          intent_1_def example_world_def hotel_A_def hotel_B_def newBooking_def)
  with booking_only_after_verified_payment [OF run3]
  have "collection w3 = push_booking (hotelId ?req) (newBooking ?req) (collection example_world)"
    by blast
  then have 3: "collection w3 =
      [hotel_A\<lparr>bookings := [[(''paymentIntentId'', JStr ''pi_1''), (''userId'', JStr ''u1'')]]\<rparr>,
       hotel_B]"
    by (simp add: example_world_def hotel_A_def hotel_B_def newBooking_def)
  from 1 2 3 run1 run2 run3 show ?thesis by simp
qed

section \<open>Repeated confirmation\<close>

text \<open>
  C3. When the processor holds a succeeded intent for the request's payment intent id,
  with the path's hotel id and the user's id in its metadata, the hotel exists and the
  store rejects neither the update nor the save, then confirming the same request twice
  in a row answers 200 both times, and afterwards the hotel's bookings are the earlier
  ones followed by two copies of the new booking.
\<close>

theorem repeated_confirmation_appends_twice:
  assumes "stripe_retrieve env (map_of (body req) ''paymentIntentId'') =
             Resolved (Some paymentIntent)"
    and "map_of (metadata paymentIntent) ''hotelId'' = Some (hotelId req)"
    and "map_of (metadata paymentIntent) ''userId'' = Some (userId req)"
    and "status paymentIntent = ''succeeded''"
    and "find (\<lambda>h. hotel_id h = hotelId req) (collection w) = Some h"
    and "\<not> store_rejects env (FindOneAndUpdate (hotelId req))"
    and "\<not> store_rejects env (Save (hotelId req))"
  shows
   "fst (post_bookings env req w) = Responded \<lparr>code = 200, payload = Empty\<rparr> \<and>
    fst (post_bookings env req (snd (post_bookings env req w))) =
      Responded \<lparr>code = 200, payload = Empty\<rparr> \<and>
    find (\<lambda>h. hotel_id h = hotelId req)
      (collection (snd (post_bookings env req (snd (post_bookings env req w))))) =
      Some (h\<lparr>bookings := bookings h @ [newBooking req, newBooking req]\<rparr>)"
proof -
  have id_of: "hotel_id h' = hotelId req"
    if "find (\<lambda>h. hotel_id h = hotelId req) hs = Some h'" for hs h'
    using that by (auto simp: find_Some_iff)
  have step: "post_bookings env req v =
      (Responded \<lparr>code = 200, payload = Empty\<rparr>,
       v\<lparr>collection := push_booking (hotelId req) (newBooking req) (collection v)\<rparr>)"
    if "find (\<lambda>h. hotel_id h = hotelId req) (collection v) = Some h'" for v h'
    using assms(1-4,6,7) that id_of [OF that]
    by (simp add: post_bookings_def findOneAndUpdate_push_def save_def)
  let ?w1 = "w\<lparr>collection := push_booking (hotelId req) (newBooking req) (collection w)\<rparr>"
  have first: "post_bookings env req w = (Responded \<lparr>code = 200, payload = Empty\<rparr>, ?w1)"
    by (rule step [OF assms(5)])
  have found1: "find (\<lambda>h. hotel_id h = hotelId req) (collection ?w1) =
      Some (h\<lparr>bookings := bookings h @ [newBooking req]\<rparr>)"
    using push_booking_present [OF assms(5)] by simp
  have second: "post_bookings env req ?w1 =
      (Responded \<lparr>code = 200, payload = Empty\<rparr>,
       ?w1\<lparr>collection := push_booking (hotelId req) (newBooking req) (collection ?w1)\<rparr>)"
    by (rule step [OF found1])
  have "find (\<lambda>h. hotel_id h = hotelId req)
          (push_booking (hotelId req) (newBooking req) (collection ?w1)) =
        Some (h\<lparr>bookings := bookings h @ [newBooking req, newBooking req]\<rparr>)"
    using push_booking_present [OF found1] by simp
  with first second show ?thesis by simp
qed

text \<open>The succeeded intent \<open>pi_1\<close> confirmed twice for hotel \<open>A\<close>.\<close>

theorem repeated_confirmation_appends_twice_witness:
  "fst (post_bookings example_env
     \<lparr>hotelId = ''A'', userId = ''u1'', body = [(''paymentIntentId'', JStr ''pi_1'')]\<rparr>
     example_world) = Responded \<lparr>code = 200, payload = Empty\<rparr> \<and>
   collection (snd (post_bookings example_env
     \<lparr>hotelId = ''A'', userId = ''u1'', body = [(''paymentIntentId'', JStr ''pi_1'')]\<rparr>
     (snd (post_bookings example_env
        \<lparr>hotelId = ''A'', userId = ''u1'', body = [(''paymentIntentId'', JStr ''pi_1'')]\<rparr>
        example_world)))) =
   [hotel_A\<lparr>bookings := [[(''paymentIntentId'', JStr ''pi_1''), (''userId'', JStr ''u1'')],
                         [(''paymentIntentId'', JStr ''pi_1''), (''userId'', JStr ''u1'')]]\<rparr>,
    hotel_B]"
proof -
  let ?req = "\<lparr>hotelId = ''A'', userId = ''u1'', body = [(''paymentIntentId'', JStr ''pi_1'')]\<rparr>"
  have "stripe_retrieve example_env (map_of (body ?req) ''paymentIntentId'') =
          Resolved (Some intent_1)"
    and "map_of (metadata intent_1) ''hotelId'' = Some (hotelId ?req)"
    and "map_of (metadata intent_1) ''userId'' = Some (userId ?req)"
    and "status intent_1 = ''succeeded''"
    and "find (\<lambda>h. hotel_id h = hotelId ?req) (collection example_world) = Some hotel_A"
    and "\<not> store_rejects example_env (FindOneAndUpdate (hotelId ?req))"
    and "\<not> store_rejects example_env (Save (hotelId ?req))"
    by (simp_all add: example_env_def intent_1_def example_world_def hotel_A_def)
  from repeated_confirmation_appends_twice [OF this]
  have first: "fst (post_bookings example_env ?req example_world) =
      Responded \<lparr>code = 200, payload = Empty\<rparr>"
    by blast
  have "collection (snd (post_bookings example_env ?req
          (snd (post_bookings example_env ?req example_world)))) =
        [hotel_A\<lparr>bookings := [[(''paymentIntentId'', JStr ''pi_1''), (''userId'', JStr ''u1'')],
                         [(''paymentIntentId'', JStr ''pi_1''), (''userId'', JStr ''u1'')]]\<rparr>,
         hotel_B]"
    by (simp add: post_bookings_def findOneAndUpdate_push_def save_def example_env_def
          intent_1_def example_world_def hotel_A_def hotel_B_def newBooking_def)
  with first show ?thesis by simp
qed

section \<open>The user of a stored booking\<close>

text \<open>
  C10. After a confirmation answered with 200, the hotel with the path's id has one more
  booking, the new booking of the request, whose \<open>userId\<close> is the authenticated user's
  id; and every request of the same user whose body agrees with this one on all keys but
  \<open>userId\<close> builds a booking with the same value at every key.
\<close>

theorem stored_user_is_authenticated_user:
  assumes "post_bookings env req w = (Responded \<lparr>code = 200, payload = Empty\<rparr>, w')"
  shows
   "(\<exists>h. find (\<lambda>h. hotel_id h = hotelId req) (collection w) = Some h \<and>
         find (\<lambda>h. hotel_id h = hotelId req) (collection w') =
           Some (h\<lparr>bookings := bookings h @ [newBooking req]\<rparr>)) \<and>
    map_of (newBooking req) ''userId'' = Some (JStr (userId req)) \<and>
    (\<forall>req'. userId req' = userId req \<and>
            (\<forall>k. k \<noteq> ''userId'' \<longrightarrow> map_of (body req') k = map_of (body req) k) \<longrightarrow>
            map_of (newBooking req') = map_of (newBooking req))"
proof -
  have "\<exists>h. find (\<lambda>h. hotel_id h = hotelId req) (collection w) = Some h \<and>
         find (\<lambda>h. hotel_id h = hotelId req) (collection w') =
           Some (h\<lparr>bookings := bookings h @ [newBooking req]\<rparr>)"
    using assms
    by (auto simp: post_bookings_def findOneAndUpdate_push_def save_def push_booking_present
          split: promise.splits option.splits if_splits prod.splits)
  moreover have "map_of (newBooking req) ''userId'' = Some (JStr (userId req))"
    by (simp add: newBooking_def update_conv')
  moreover have "map_of (newBooking req') = map_of (newBooking req)"
    if "userId req' = userId req"
      and "\<forall>k. k \<noteq> ''userId'' \<longrightarrow> map_of (body req') k = map_of (body req) k" for req'
    using that by (auto simp: newBooking_def update_conv' fun_eq_iff)
  ultimately show ?thesis by blast
qed

text \<open>
  Two bodies, one naming the user \<open>u2\<close> and one with a \<open>null\<close> user, sent by the
  authenticated user \<open>u1\<close>.
\<close>

theorem stored_user_is_authenticated_user_witness:
  "post_bookings example_env
     \<lparr>hotelId = ''A'', userId = ''u1'',
      body = [(''userId'', JStr ''u2''), (''paymentIntentId'', JStr ''pi_1'')]\<rparr>
     example_world =
   (Responded \<lparr>code = 200, payload = Empty\<rparr>,
    example_world\<lparr>collection :=
      [hotel_A\<lparr>bookings := [[(''userId'', JStr ''u1''), (''paymentIntentId'', JStr ''pi_1'')]]\<rparr>,
       hotel_B]\<rparr>) \<and>
   map_of (newBooking \<lparr>hotelId = ''A'', userId = ''u1'',
      body = [(''userId'', JStr ''u2''), (''paymentIntentId'', JStr ''pi_1'')]\<rparr>) ''userId'' =
     Some (JStr ''u1'') \<and>
   map_of (newBooking \<lparr>hotelId = ''A'', userId = ''u1'',
      body = [(''paymentIntentId'', JStr ''pi_1''), (''userId'', JNull)]\<rparr>) =
   map_of (newBooking \<lparr>hotelId = ''A'', userId = ''u1'',
      body = [(''userId'', JStr ''u2''), (''paymentIntentId'', JStr ''pi_1'')]\<rparr>)"
proof -
  let ?req = "\<lparr>hotelId = ''A'', userId = ''u1'',
      body = [(''userId'', JStr ''u2''), (''paymentIntentId'', JStr ''pi_1'')]\<rparr>"
  let ?req' = "\<lparr>hotelId = ''A'', userId = ''u1'',
      body = [(''paymentIntentId'', JStr ''pi_1''), (''userId'', JNull)]\<rparr>"
  let ?w' = "example_world\<lparr>collection :=
      [hotel_A\<lparr>bookings := [[(''userId'', JStr ''u1''), (''paymentIntentId'', JStr ''pi_1'')]]\<rparr>,
       hotel_B]\<rparr>"
  have run: "post_bookings example_env ?req example_world =
      (Responded \<lparr>code = 200, payload = Empty\<rparr>, ?w')"
    by (simp add: post_bookings_def findOneAndUpdate_push_def save_def example_env_def
          intent_1_def example_world_def hotel_A_def hotel_B_def newBooking_def)
  have same: "userId ?req' = userId ?req \<and>
      (\<forall>k. k \<noteq> ''userId'' \<longrightarrow> map_of (body ?req') k = map_of (body ?req) k)"
    by simp
  note fact = stored_user_is_authenticated_user [OF run]
  have "map_of (newBooking ?req) ''userId'' = Some (JStr (userId ?req))"
    by (rule fact [THEN conjunct2, THEN conjunct1])
  then have stored: "map_of (newBooking ?req) ''userId'' = Some (JStr ''u1'')"
    by simp
  have agree: "map_of (newBooking ?req') = map_of (newBooking ?req)"
    by (rule fact [THEN conjunct2, THEN conjunct2, rule_format, of ?req', OF same])
  from run stored agree show ?thesis
    by (intro conjI)
qed

section \<open>Payment intent\<close>









text \<open>
  The rounding shows beyond \<open>2 ^ 53\<close>: the square of 94906267 is odd, and the
  product computed is the even number below it.
\<close>

lemma js_times_rounds:
  "js_times (Finite 94906267) (Finite 94906267) = Finite 9007199515875288"
  "(94906267 :: int) * 94906267 = 9007199515875289"
  by code_simp+

section \<open>Failures of the payment-intent route\<close>

lemma payment_intent_hotel_absent:
  "findById env w (hotelId req) = Resolved None \<Longrightarrow>
   post_payment_intent env req w =
     (Responded \<lparr>code = 400, payload = Message ''Hotel not found''\<rparr>, w)"
  by (simp add: post_payment_intent_def)

lemma payment_intent_no_secret:
  "findById env w (hotelId req) = Resolved (Some hotel) \<Longrightarrow>
   stripe_create env
     \<lparr>amount = js_times (js_times (Finite (pricePerNight hotel)) (numberOfNights req))
                (Finite 100),
      currency = ''usd'',
      metadata = [(''hotelId'', hotelId req), (''userId'', userId req)]\<rparr> =
     Resolved paymentIntent \<Longrightarrow>
   usable_secret (client_secret paymentIntent) = None \<Longrightarrow>
   fst (post_payment_intent env req w) =
     Responded \<lparr>code = 500, payload = Message ''Error creating payment intent''\<rparr>"
  by (simp add: post_payment_intent_def Let_def)

text \<open>
  C8. The payment-intent route answers 400 when the lookup finds no hotel and 500 when
  the processor's intent has no usable client secret (the two lemmas above), but a
  rejection of the lookup or of the processor is not answered at all: for the id \<open>xyz\<close>,
  whose lookup the store rejects, and for an unreachable processor, the rejection escapes
  the route. The confirmation route, which wraps its calls in \<open>try\<close>, answers the
  rejection of its processor call with 500 and the generic message.
\<close>

theorem payment_intent_rejection_escapes:
  "post_payment_intent example_env
     \<lparr>hotelId = ''xyz'', userId = ''u1'', numberOfNights = Finite 3\<rparr> example_world =
     (Unhandled, example_world) \<and>
   fst (post_payment_intent processor_down
     \<lparr>hotelId = ''A'', userId = ''u1'', numberOfNights = Finite 3\<rparr> example_world) = Unhandled \<and>
   post_bookings example_env
     \<lparr>hotelId = ''A'', userId = ''u1'', body = [(''paymentIntentId'', JStr ''pi_0'')]\<rparr>
     example_world =
     (Responded \<lparr>code = 500, payload = Message ''something went wrong''\<rparr>, example_world)"
  by (simp add: post_payment_intent_def post_bookings_def findById_def example_env_def
        processor_down_def example_world_def hotel_A_def Let_def)

text \<open>The outcome of the request for the id \<open>xyz\<close>, read off the theorem.\<close>

theorem payment_intent_rejection_escapes_witness:
  "fst (post_payment_intent example_env
     \<lparr>hotelId = ''xyz'', userId = ''u1'', numberOfNights = Finite 3\<rparr> example_world) = Unhandled"
  using payment_intent_rejection_escapes by simp

section \<open>Hotel by id\<close>

text \<open>
  C9, as stated, fails: for the id \<open>xyz\<close>, whose lookup the store rejects, the route
  answers 500, which is neither a hotel nor 400.
\<close>

theorem get_hotel_invalid_id_is_500:
  "get_hotel example_env ''xyz'' example_world =
     Responded \<lparr>code = 500, payload = Message ''Error fetching hotel''\<rparr>"
  by (simp add: get_hotel_def validationResult_def findById_def example_env_def)

text \<open>
  C9, amended. The route answers 400 with the validation error when the id is empty;
  for a non-empty id it answers 500 with the message \<open>Error fetching hotel\<close> when the
  lookup rejects, and 200 with the hotel when the lookup finds one.
\<close>

theorem get_hotel_responses:
  "(i = [] \<longrightarrow>
      get_hotel env i w =
        Responded \<lparr>code = 400, payload = Validation_errors [''Hotel ID is required'']\<rparr>) \<and>
   (i \<noteq> [] \<and> store_rejects env (FindById i) \<longrightarrow>
      get_hotel env i w =
        Responded \<lparr>code = 500, payload = Message ''Error fetching hotel''\<rparr>) \<and>
   (\<forall>h. i \<noteq> [] \<and> \<not> store_rejects env (FindById i) \<and>
        find (\<lambda>h. hotel_id h = i) (collection w) = Some h \<longrightarrow>
        get_hotel env i w = Responded \<lparr>code = 200, payload = Hotel_json (Some h)\<rparr>)"
  by (simp add: get_hotel_def validationResult_def findById_def)

text \<open>The three cases: the empty id, the id \<open>xyz\<close> and the id of hotel \<open>B\<close>.\<close>

theorem get_hotel_responses_witness:
  "get_hotel example_env [] example_world =
     Responded \<lparr>code = 400, payload = Validation_errors [''Hotel ID is required'']\<rparr> \<and>
   get_hotel example_env ''xyz'' example_world =
     Responded \<lparr>code = 500, payload = Message ''Error fetching hotel''\<rparr> \<and>
   get_hotel example_env ''B'' example_world =
     Responded \<lparr>code = 200, payload = Hotel_json (Some hotel_B)\<rparr>"
proof -
  have "store_rejects example_env (FindById ''xyz'')"
    and "\<not> store_rejects example_env (FindById ''B'')"
    and "find (\<lambda>h. hotel_id h = ''B'') (collection example_world) = Some hotel_B"
    by (simp_all add: example_env_def example_world_def hotel_A_def hotel_B_def)
  with get_hotel_responses [of "[]" example_env example_world]
    get_hotel_responses [of "''xyz''" example_env example_world]
    get_hotel_responses [of "''B''" example_env example_world]
  show ?thesis by simp
qed

section \<open>The entries of a built query\<close>

lemma if_param_supplied:
  "if_param param block q = (case supplied param of None \<Rightarrow> q | Some v \<Rightarrow> block v q)"
  by (simp add: if_param_def supplied_def split: option.splits)

lemma if_param_sel:
  "sel (if_param param block q) =
     (case supplied param of None \<Rightarrow> sel q | Some v \<Rightarrow> sel (block v q))"
  by (simp add: if_param_supplied split: option.splits)

lemma case_option_same: "(case x of None \<Rightarrow> a | Some v \<Rightarrow> a) = a"
  by (cases x) simp_all

lemma case_option_map: "(case x of None \<Rightarrow> None | Some v \<Rightarrow> Some (f v)) = map_option f x"
  by (cases x) simp_all

lemma destination_entry_Inr:
  "destination_entry env queryParams = Inr q0 \<Longrightarrow>
   q0 = empty_query\<lparr>q_or := map_option (\<lambda>d. [(''city'', RegExp (toString d) ''i''),
                                     (''country'', RegExp (toString d) ''i'')])
                    (supplied (destination queryParams))\<rparr>"
  by (auto simp: destination_entry_def new_RegExp_def supplied_def empty_query_def
      split: option.splits if_splits)

lemma destination_entry_returns:
  "(\<exists>q0. destination_entry env queryParams = Inr q0) \<longleftrightarrow>
   (\<forall>d. supplied (destination queryParams) = Some d \<longrightarrow> regexp_accepts env (toString d) ''i'')"
  by (auto simp: destination_entry_def new_RegExp_def supplied_def
      split: option.splits if_splits)

lemma constructSearchQuery_entries:
  assumes "constructSearchQuery env queryParams = Inr q"
  shows "q_or q = map_option (\<lambda>d. [(''city'', RegExp (toString d) ''i''),
                                     (''country'', RegExp (toString d) ''i'')])
                    (supplied (destination queryParams))"
    and "q_adultCount_gte q =
           map_option (\<lambda>v. parseInt (toString v)) (supplied (adultCount_param queryParams))"
    and "q_childCount_gte q =
           map_option (\<lambda>v. parseInt (toString v)) (supplied (childCount_param queryParams))"
    and "q_facilities_all q = map_option string_array (supplied (facilities_param queryParams))"
    and "q_type_in q = map_option string_array (supplied (types queryParams))"
    and "q_starRating_in q = map_option starRatings (supplied (stars queryParams))"
    and "q_pricePerNight_lte q =
           map_option (\<lambda>v. number_toString (parseInt (toString v))) (supplied (maxPrice queryParams))"
proof -
  from assms obtain q0 where q0: "destination_entry env queryParams = Inr q0"
    and q: "q =
      if_param (maxPrice queryParams)
        (\<lambda>v q. q\<lparr>q_pricePerNight_lte := Some (number_toString (parseInt (toString v)))\<rparr>)
      (if_param (stars queryParams) (\<lambda>v q. q\<lparr>q_starRating_in := Some (starRatings v)\<rparr>)
      (if_param (types queryParams) (\<lambda>v q. q\<lparr>q_type_in := Some (string_array v)\<rparr>)
      (if_param (facilities_param queryParams) (\<lambda>v q. q\<lparr>q_facilities_all := Some (string_array v)\<rparr>)
      (if_param (childCount_param queryParams)
        (\<lambda>v q. q\<lparr>q_childCount_gte := Some (parseInt (toString v))\<rparr>)
      (if_param (adultCount_param queryParams)
        (\<lambda>v q. q\<lparr>q_adultCount_gte := Some (parseInt (toString v))\<rparr>) q0)))))"
    unfolding constructSearchQuery_def Let_def
    by (cases "destination_entry env queryParams") simp_all
  note q0' = destination_entry_Inr [OF q0]
  show "q_or q = map_option (\<lambda>d. [(''city'', RegExp (toString d) ''i''),
                                     (''country'', RegExp (toString d) ''i'')])
                    (supplied (destination queryParams))"
    unfolding q by (subst q0') (simp add: if_param_sel [where sel = q_or] case_option_same cong: option.case_cong)
  show "q_adultCount_gte q =
           map_option (\<lambda>v. parseInt (toString v)) (supplied (adultCount_param queryParams))"
    unfolding q by (subst q0')
      (simp add: if_param_sel [where sel = q_adultCount_gte] case_option_same case_option_map
         empty_query_def cong: option.case_cong)
  show "q_childCount_gte q =
           map_option (\<lambda>v. parseInt (toString v)) (supplied (childCount_param queryParams))"
    unfolding q by (subst q0')
      (simp add: if_param_sel [where sel = q_childCount_gte] case_option_same case_option_map
         empty_query_def cong: option.case_cong)
  show "q_facilities_all q = map_option string_array (supplied (facilities_param queryParams))"
    unfolding q by (subst q0')
      (simp add: if_param_sel [where sel = q_facilities_all] case_option_same case_option_map
         empty_query_def cong: option.case_cong)
  show "q_type_in q = map_option string_array (supplied (types queryParams))"
    unfolding q by (subst q0')
      (simp add: if_param_sel [where sel = q_type_in] case_option_same case_option_map
         empty_query_def cong: option.case_cong)
  show "q_starRating_in q = map_option starRatings (supplied (stars queryParams))"
    unfolding q by (subst q0')
      (simp add: if_param_sel [where sel = q_starRating_in] case_option_same case_option_map
         empty_query_def cong: option.case_cong)
  show "q_pricePerNight_lte q =
           map_option (\<lambda>v. number_toString (parseInt (toString v))) (supplied (maxPrice queryParams))"
    unfolding q by (subst q0')
      (simp add: if_param_sel [where sel = q_pricePerNight_lte] case_option_same case_option_map
         empty_query_def cong: option.case_cong)
qed

lemma constructSearchQuery_returns:
  "(\<exists>q. constructSearchQuery env queryParams = Inr q) \<longleftrightarrow>
   (\<forall>d. supplied (destination queryParams) = Some d \<longrightarrow> regexp_accepts env (toString d) ''i'')"
  unfolding destination_entry_returns [symmetric]
  unfolding constructSearchQuery_def Let_def
  by (cases "destination_entry env queryParams") simp_all

text \<open>
  C5. In every query the builder returns, a parameter that is absent from the request
  leaves no entry: no \<open>$or\<close> without a destination, no \<open>adultCount\<close> or \<open>childCount\<close>
  entry without the count, no \<open>facilities\<close>, \<open>type\<close> or \<open>starRating\<close> entry without
  facilities, types or stars, and no \<open>pricePerNight\<close> entry without a maximum price.
  Without a destination the builder does return a query.
\<close>

theorem absent_parameter_no_key:
  "(\<forall>q. constructSearchQuery env queryParams = Inr q \<longrightarrow>
      (destination queryParams = None \<longrightarrow> q_or q = None) \<and>
      (adultCount_param queryParams = None \<longrightarrow> q_adultCount_gte q = None) \<and>
      (childCount_param queryParams = None \<longrightarrow> q_childCount_gte q = None) \<and>
      (facilities_param queryParams = None \<longrightarrow> q_facilities_all q = None) \<and>
      (types queryParams = None \<longrightarrow> q_type_in q = None) \<and>
      (stars queryParams = None \<longrightarrow> q_starRating_in q = None) \<and>
      (maxPrice queryParams = None \<longrightarrow> q_pricePerNight_lte q = None)) \<and>
   (destination queryParams = None \<longrightarrow> (\<exists>q. constructSearchQuery env queryParams = Inr q))"
proof -
  have "supplied None = None"
    by (simp add: supplied_def)
  then have "\<forall>q. constructSearchQuery env queryParams = Inr q \<longrightarrow>
      (destination queryParams = None \<longrightarrow> q_or q = None) \<and>
      (adultCount_param queryParams = None \<longrightarrow> q_adultCount_gte q = None) \<and>
      (childCount_param queryParams = None \<longrightarrow> q_childCount_gte q = None) \<and>
      (facilities_param queryParams = None \<longrightarrow> q_facilities_all q = None) \<and>
      (types queryParams = None \<longrightarrow> q_type_in q = None) \<and>
      (stars queryParams = None \<longrightarrow> q_starRating_in q = None) \<and>
      (maxPrice queryParams = None \<longrightarrow> q_pricePerNight_lte q = None)"
    by (simp add: constructSearchQuery_entries)
  moreover have "destination queryParams = None \<longrightarrow>
      (\<exists>q. constructSearchQuery env queryParams = Inr q)"
    by (simp add: constructSearchQuery_returns supplied_def)
  ultimately show ?thesis by blast
qed

text \<open>A request with a maximum price only: the query has the price entry and no other.\<close>

theorem absent_parameter_no_key_witness:
  "constructSearchQuery example_env (no_params\<lparr>maxPrice := Some (QStr ''100'')\<rparr>) =
     Inr (empty_query\<lparr>q_pricePerNight_lte := Some ''100''\<rparr>) \<and>
   q_or (empty_query\<lparr>q_pricePerNight_lte := Some ''100''\<rparr>) = None \<and>
   q_adultCount_gte (empty_query\<lparr>q_pricePerNight_lte := Some ''100''\<rparr>) = None \<and>
   q_childCount_gte (empty_query\<lparr>q_pricePerNight_lte := Some ''100''\<rparr>) = None \<and>
   q_facilities_all (empty_query\<lparr>q_pricePerNight_lte := Some ''100''\<rparr>) = None \<and>
   q_type_in (empty_query\<lparr>q_pricePerNight_lte := Some ''100''\<rparr>) = None \<and>
   q_starRating_in (empty_query\<lparr>q_pricePerNight_lte := Some ''100''\<rparr>) = None"
proof -
  let ?P = "no_params\<lparr>maxPrice := Some (QStr ''100'')\<rparr>"
  let ?q = "empty_query\<lparr>q_pricePerNight_lte := Some ''100''\<rparr>"
  have built: "constructSearchQuery example_env ?P = Inr ?q"
    by code_simp
  have absent: "destination ?P = None" "adultCount_param ?P = None" "childCount_param ?P = None"
    "facilities_param ?P = None" "types ?P = None" "stars ?P = None"
    by (simp_all add: no_params_def)
  from absent_parameter_no_key [of example_env ?P, THEN conjunct1, rule_format, OF built] absent
  have "q_or ?q = None \<and> q_adultCount_gte ?q = None \<and> q_childCount_gte ?q = None \<and>
      q_facilities_all ?q = None \<and> q_type_in ?q = None \<and> q_starRating_in ?q = None"
    by blast
  with built show ?thesis by blast
qed

section \<open>Numbers written and read back\<close>

lemma digit_value_digit_char: "d < 10 \<Longrightarrow> digit_value (digit_char d) = Some d"
  by (simp add: digit_value_def digit_char_def Let_def)

lemma radix_digit_digit_char: "d < 10 \<Longrightarrow> radix_digit 10 (digit_char d)"
  by (simp add: radix_digit_def digit_value_digit_char)

lemma radix_value_snoc:
  "radix_value R (Z @ [c]) = radix_value R Z * R + the (digit_value c)"
  by (simp add: radix_value_def)

lemma decimal_digits: "list_all (radix_digit 10) (decimal n)"
proof (induction n rule: decimal.induct)
  case (1 n)
  show ?case
  proof (cases "n < 10")
    case True
    then show ?thesis by (subst decimal.simps) (simp add: radix_digit_digit_char)
  next
    case False
    with 1 show ?thesis by (subst decimal.simps) (simp add: radix_digit_digit_char)
  qed
qed

lemma decimal_nonempty: "decimal n \<noteq> []"
  by (subst decimal.simps) simp

lemma decimal_value: "radix_value 10 (decimal n) = n"
proof (induction n rule: decimal.induct)
  case (1 n)
  show ?case
  proof (cases "n < 10")
    case True
    then show ?thesis
      by (subst decimal.simps) (simp add: radix_value_def digit_value_digit_char)
  next
    case False
    with 1 have "radix_value 10 (decimal (n div 10)) = n div 10" by simp
    with False show ?thesis
      by (subst decimal.simps) (simp add: radix_value_snoc digit_value_digit_char)
  qed
qed

lemma not_digit_minus: "\<not> radix_digit 10 CHR ''-''"
  by (simp add: radix_digit_def digit_value_def)

lemma decimal_no_sign: "take 1 (decimal n) \<noteq> ''-''"
proof
  assume "take 1 (decimal n) = ''-''"
  then have "CHR ''-'' \<in> set (decimal n)"
    by (metis in_set_takeD list.set_intros(1))
  with decimal_digits [of n] have "radix_digit 10 CHR ''-''"
    by (simp add: list_all_iff)
  with not_digit_minus show False by simp
qed

lemma string_to_number_toString: "string_to_number (number_toString (Num n)) = Num n"
proof (cases "n < 0")
  case True
  then show ?thesis
    by (simp add: string_to_number_def decimal_digits decimal_nonempty decimal_value)
next
  case False
  then show ?thesis
    using decimal_no_sign [of "nat n"]
    by (simp add: string_to_number_def decimal_digits decimal_nonempty decimal_value)
qed

lemma string_to_number_NaN: "string_to_number (number_toString NaN) = NaN"
  by (simp add: string_to_number_def radix_digit_def digit_value_def)

lemma lte_holds_toString:
  "lte_holds (Some (number_toString m)) v = (case m of NaN \<Rightarrow> False | Num n \<Rightarrow> v \<le> of_int n)"
  by (cases m) (simp_all add: lte_holds_def string_to_number_toString string_to_number_NaN
      del: number_toString.simps)

lemma take_all_neq:
  "list_all P xs \<Longrightarrow> c \<in> set ys \<Longrightarrow> \<not> P c \<Longrightarrow> take k xs \<noteq> ys"
  by (metis in_set_takeD list_all_iff)

lemma digit_not_space: "radix_digit 10 c \<Longrightarrow> \<not> StrWhiteSpaceChar c"
  by (auto simp: radix_digit_def digit_value_def StrWhiteSpaceChar_def Let_def
      split: if_splits option.splits)

lemma not_decimal_digit:
  "\<not> radix_digit 10 CHR ''-''" "\<not> radix_digit 10 CHR ''+''"
  "\<not> radix_digit 10 CHR ''x''" "\<not> radix_digit 10 CHR ''X''"
  by (simp_all add: radix_digit_def digit_value_def)

lemma digits_no_prefix:
  assumes "list_all (radix_digit 10) ds"
  shows "take 1 ds \<noteq> ''-''" and "take 1 ds \<noteq> ''+''"
    and "take 2 ds \<noteq> ''0x''" and "take 2 ds \<noteq> ''0X''"
proof -
  show "take 1 ds \<noteq> ''-''"
    by (rule take_all_neq [OF assms _ not_decimal_digit(1)]) simp
  show "take 1 ds \<noteq> ''+''"
    by (rule take_all_neq [OF assms _ not_decimal_digit(2)]) simp
  show "take 2 ds \<noteq> ''0x''"
    by (rule take_all_neq [OF assms _ not_decimal_digit(3)]) simp
  show "take 2 ds \<noteq> ''0X''"
    by (rule take_all_neq [OF assms _ not_decimal_digit(4)]) simp
qed

lemma parseInt_digits:
  assumes "list_all (radix_digit 10) ds" and "ds \<noteq> []"
  shows "parseInt ds = Num (int (radix_value 10 ds))"
proof -
  from assms have "\<not> StrWhiteSpaceChar (hd ds)"
    by (cases ds) (auto simp: digit_not_space)
  with assms(2) have drop: "dropWhile StrWhiteSpaceChar ds = ds"
    by (cases ds) simp_all
  from assms(1) have all: "takeWhile (radix_digit 10) ds = ds"
    by (simp add: takeWhile_eq_all_conv list_all_iff)
  show ?thesis
    unfolding parseInt_def Let_def drop
    using digits_no_prefix [OF assms(1)] assms(2) by (simp add: all)
qed

lemma parseInt_minus_digits:
  assumes "list_all (radix_digit 10) ds" and "ds \<noteq> []"
  shows "parseInt (''-'' @ ds) = Num (- int (radix_value 10 ds))"
proof -
  have drop: "dropWhile StrWhiteSpaceChar (''-'' @ ds) = ''-'' @ ds"
    by (simp add: StrWhiteSpaceChar_def)
  from assms(1) have all: "takeWhile (radix_digit 10) ds = ds"
    by (simp add: takeWhile_eq_all_conv list_all_iff)
  show ?thesis
    unfolding parseInt_def Let_def drop
    using digits_no_prefix [OF assms(1)] assms(2) by (simp add: all)
qed

lemma parseInt_decimal: "parseInt (number_toString (Num n)) = Num n"
proof (cases "n < 0")
  case True
  then show ?thesis
    using parseInt_minus_digits [OF decimal_digits decimal_nonempty, of "nat (- n)"]
    by (simp add: decimal_value)
next
  case False
  then show ?thesis
    using parseInt_digits [OF decimal_digits decimal_nonempty, of "nat n"]
    by (simp add: decimal_value)
qed

text \<open>
  C6, as stated, fails: \<open>parseInt\<close> reads the leading digits of the parameter, not its
  value. For the maximum price \<open>5e-1\<close>, which is one half, the built query has the entry
  \<open>pricePerNight: {$lte: "5"}\<close> and matches a hotel whose price per night is 5.
\<close>

theorem max_price_reads_leading_digits:
  "constructSearchQuery example_env (no_params\<lparr>maxPrice := Some (QStr ''5e-1'')\<rparr>) =
     Inr (empty_query\<lparr>q_pricePerNight_lte := Some ''5''\<rparr>) \<and>
   hotel_matches example_env (empty_query\<lparr>q_pricePerNight_lte := Some ''5''\<rparr>)
     (hotel_B\<lparr>pricePerNight := 5\<rparr>) \<and>
   \<not> pricePerNight (hotel_B\<lparr>pricePerNight := 5\<rparr>) \<le> 5 / 10"
  by code_simp

text \<open>
  C6, amended. When the maximum price is supplied and \<open>parseInt\<close> reads from it the
  integer \<open>n\<close>, of magnitude at most \<open>2 ^ 53\<close>, the built query has the entry
  \<open>pricePerNight: {$lte: "n"}\<close>, a hotel satisfies that entry exactly when its price per
  night is at most \<open>n\<close>, and so every hotel matching the query has a price per night of
  at most \<open>n\<close>. When the parameter is the decimal writing of an integer, \<open>n\<close> is that
  integer.
\<close>

theorem max_price_upper_bound:
  assumes "constructSearchQuery env queryParams = Inr q"
    and "maxPrice queryParams = Some v" and "truthy v"
    and "parseInt (toString v) = Num n" and "\<bar>n\<bar> \<le> 2 ^ 53"
  shows "q_pricePerNight_lte q = Some (number_toString (Num n)) \<and>
    (\<forall>h. lte_holds (q_pricePerNight_lte q) (pricePerNight h) \<longleftrightarrow>
         pricePerNight h \<le> of_int n) \<and>
    (\<forall>h. hotel_matches env q h \<longrightarrow> pricePerNight h \<le> of_int n) \<and>
    (\<forall>m. toString v = number_toString (Num m) \<longrightarrow> n = m)"
proof -
  from assms(2,3) have "supplied (maxPrice queryParams) = Some v"
    by (simp add: supplied_def)
  with assms(1,4) have entry: "q_pricePerNight_lte q = Some (number_toString (Num n))"
    by (simp add: constructSearchQuery_entries del: number_toString.simps)
  have sem: "lte_holds (Some (number_toString (Num n))) x \<longleftrightarrow> x \<le> of_int n" for x
    by (simp only: lte_holds_toString jsnum.case)
  have "n = m" if "toString v = number_toString (Num m)" for m
    using assms(4) parseInt_decimal [of m] that by simp
  then show ?thesis
    by (simp add: entry hotel_matches_def sem del: number_toString.simps)
qed

text \<open>A maximum price of 100: hotel \<open>B\<close> at 90 satisfies the entry, hotel \<open>A\<close> at 200 does not.\<close>

theorem max_price_upper_bound_witness:
  "parseInt (toString (QStr ''100'')) = Num 100 \<and>
   q_pricePerNight_lte (empty_query\<lparr>q_pricePerNight_lte := Some ''100''\<rparr>) = Some ''100'' \<and>
   lte_holds (Some ''100'') (pricePerNight hotel_B) \<and>
   \<not> lte_holds (Some ''100'') (pricePerNight hotel_A) \<and>
   \<not> hotel_matches example_env (empty_query\<lparr>q_pricePerNight_lte := Some ''100''\<rparr>) hotel_A"
proof -
  let ?P = "no_params\<lparr>maxPrice := Some (QStr ''100'')\<rparr>"
  let ?q = "empty_query\<lparr>q_pricePerNight_lte := Some ''100''\<rparr>"
  have built: "constructSearchQuery example_env ?P = Inr ?q"
    by code_simp
  have supplied_max: "maxPrice ?P = Some (QStr ''100'')" "truthy (QStr ''100'')"
    by simp_all
  have parsed: "parseInt (toString (QStr ''100'')) = Num 100"
    by code_simp
  have safe: "\<bar>100 :: int\<bar> \<le> 2 ^ 53"
    by simp
  have prices: "pricePerNight hotel_B \<le> of_int 100" "\<not> pricePerNight hotel_A \<le> of_int 100"
    by (simp_all add: hotel_A_def hotel_B_def)
  have entry: "q_pricePerNight_lte ?q = Some ''100''"
    by simp
  note fact = max_price_upper_bound [OF built supplied_max parsed safe]
  from fact prices have "lte_holds (q_pricePerNight_lte ?q) (pricePerNight hotel_B)"
    and "\<not> lte_holds (q_pricePerNight_lte ?q) (pricePerNight hotel_A)"
    and "\<not> hotel_matches example_env ?q hotel_A"
    by blast+
  with parsed entry show ?thesis by simp
qed

section \<open>The constraints of the supplied parameters\<close>

lemma plain_Cons: "plain (c # p) \<longleftrightarrow> \<not> SyntaxCharacter c \<and> plain p"
  by (simp add: plain_def)

lemma match_here_plain:
  "plain p \<Longrightarrow> match_here p s \<longleftrightarrow> prefix (map Canonicalize p) (map Canonicalize s)"
proof (induction p s rule: match_here.induct)
  case (1 s)
  then show ?case by simp
next
  case (2 p ps)
  then show ?case by simp
next
  case (3 p ps c cs)
  from 3(2) have "p \<noteq> CHR ''.''" and "plain ps"
    by (auto simp: plain_Cons SyntaxCharacter_def)
  with 3(1) show ?case by simp
qed

lemma match_anywhere_plain:
  "plain p \<Longrightarrow> match_anywhere p s \<longleftrightarrow> sublist (map Canonicalize p) (map Canonicalize s)"
proof (induction s)
  case Nil
  then show ?case by (cases p) simp_all
next
  case (Cons c cs)
  then show ?case
    by (simp add: match_here_plain sublist_Cons_right del: match_here.simps)
qed

lemma plain_plain_or_dot: "plain p \<Longrightarrow> plain_or_dot p"
  by (simp add: plain_def plain_or_dot_def list_all_iff)

lemma example_env_ecmascript: "ecmascript_regexps example_env"
  by (simp add: ecmascript_regexps_def example_env_def)

lemma or_holds_destination:
  assumes "ecmascript_regexps env" and "plain p"
  shows "or_holds env (Some [(''city'', RegExp p ''i''), (''country'', RegExp p ''i'')]) h \<longleftrightarrow>
     sublist (map Canonicalize p) (map Canonicalize (city h)) \<or>
     sublist (map Canonicalize p) (map Canonicalize (country h))"
proof -
  from assms have "regexp_test env (RegExp p ''i'') s = match_anywhere p s" for s
    by (simp add: ecmascript_regexps_def plain_plain_or_dot)
  with assms(2) show ?thesis
    by (simp add: or_holds_def match_anywhere_plain)
qed

lemma all_holds_Some: "all_holds (Some fs) vs \<longleftrightarrow> set fs \<subseteq> set vs"
  by (auto simp: all_holds_def list_all_iff)

lemma in_numbers_holds_starRatings:
  "in_numbers_holds (Some (starRatings v)) n \<longleftrightarrow> (\<exists>s \<in> set (string_array v). parseInt s = Num n)"
proof (cases v)
  case (QStr s)
  then show ?thesis
    by (cases "parseInt s") (simp_all add: in_numbers_holds_def)
next
  case (QArr xs)
  have eq: "num_eq m (Num n) \<longleftrightarrow> m = Num n" for m
    by (cases m) simp_all
  have "list_ex (\<lambda>m. num_eq m (Num n)) (map parseInt xs) \<longleftrightarrow>
      (\<exists>s \<in> set xs. parseInt s = Num n)"
    by (induction xs) (simp_all add: eq)
  with QArr show ?thesis
    by (simp add: in_numbers_holds_def)
qed

text \<open>
  C7, as stated, fails for the destination: the destination is the pattern of a regular
  expression, not a text to find. With the destination \<open>a.c\<close> the built query matches
  hotel \<open>A\<close>, whose city is \<open>abc\<close>, although \<open>a.c\<close> occurs neither in its city nor in
  its country, whatever the case of the letters.
\<close>

theorem destination_is_a_pattern:
  "constructSearchQuery example_env (no_params\<lparr>destination := Some (QStr ''a.c'')\<rparr>) =
     Inr (empty_query\<lparr>q_or := Some [(''city'', RegExp ''a.c'' ''i''),
                                       (''country'', RegExp ''a.c'' ''i'')]\<rparr>) \<and>
   city hotel_A = ''abc'' \<and>
   hotel_matches example_env
     (empty_query\<lparr>q_or := Some [(''city'', RegExp ''a.c'' ''i''),
                                 (''country'', RegExp ''a.c'' ''i'')]\<rparr>) hotel_A \<and>
   \<not> sublist (map Canonicalize ''a.c'') (map Canonicalize (city hotel_A)) \<and>
   \<not> sublist (map Canonicalize ''a.c'') (map Canonicalize (country hotel_A))"
  by code_simp

text \<open>
  C7, amended. For every parameter supplied (present and truthy), in a query the builder
  returns:
  \<^item> the destination gives the entry \<open>$or\<close> of two clauses, on \<open>city\<close> and on
    \<open>country\<close>, each with the regular expression whose pattern is the destination and
    whose flag is \<open>i\<close>; when regular expressions follow ECMAScript and the destination
    has no syntax character, a hotel satisfies the entry exactly when the destination
    occurs in its city or in its country, letters compared without case;
  \<^item> an adult or child count from which \<open>parseInt\<close> reads \<open>n\<close> is satisfied exactly
    when the hotel's count is at least \<open>n\<close>;
  \<^item> facilities are satisfied exactly when each of them is among the hotel's;
  \<^item> types are satisfied exactly when the hotel's type is one of them;
  \<^item> stars are satisfied exactly when \<open>parseInt\<close> reads the hotel's star rating from
    one of them.
\<close>

theorem supplied_parameter_constraints:
  assumes "constructSearchQuery env queryParams = Inr q"
  shows
   "(\<forall>d. supplied (destination queryParams) = Some d \<longrightarrow>
       q_or q = Some [(''city'', RegExp (toString d) ''i''),
                      (''country'', RegExp (toString d) ''i'')] \<and>
       (ecmascript_regexps env \<and> plain (toString d) \<longrightarrow>
          (or_holds env (q_or q) h \<longleftrightarrow>
             sublist (map Canonicalize (toString d)) (map Canonicalize (city h)) \<or>
             sublist (map Canonicalize (toString d)) (map Canonicalize (country h))))) \<and>
    (\<forall>v n. supplied (adultCount_param queryParams) = Some v \<and> parseInt (toString v) = Num n \<longrightarrow>
       (gte_holds (q_adultCount_gte q) (adultCount h) \<longleftrightarrow> n \<le> adultCount h)) \<and>
    (\<forall>v n. supplied (childCount_param queryParams) = Some v \<and> parseInt (toString v) = Num n \<longrightarrow>
       (gte_holds (q_childCount_gte q) (childCount h) \<longleftrightarrow> n \<le> childCount h)) \<and>
    (\<forall>v. supplied (facilities_param queryParams) = Some v \<longrightarrow>
       (all_holds (q_facilities_all q) (facilities h) \<longleftrightarrow>
          set (string_array v) \<subseteq> set (facilities h))) \<and>
    (\<forall>v. supplied (types queryParams) = Some v \<longrightarrow>
       (in_holds (q_type_in q) (type h) \<longleftrightarrow> type h \<in> set (string_array v))) \<and>
    (\<forall>v. supplied (stars queryParams) = Some v \<longrightarrow>
       (in_numbers_holds (q_starRating_in q) (starRating h) \<longleftrightarrow>
          (\<exists>s \<in> set (string_array v). parseInt s = Num (starRating h))))"
proof -
  note entries = constructSearchQuery_entries [OF assms]
  have dest: "q_or q = Some [(''city'', RegExp (toString d) ''i''),
                      (''country'', RegExp (toString d) ''i'')] \<and>
       (ecmascript_regexps env \<and> plain (toString d) \<longrightarrow>
          (or_holds env (q_or q) h \<longleftrightarrow>
             sublist (map Canonicalize (toString d)) (map Canonicalize (city h)) \<or>
             sublist (map Canonicalize (toString d)) (map Canonicalize (country h))))"
    if "supplied (destination queryParams) = Some d" for d
    using that by (simp add: entries(1) or_holds_destination)
  have adult: "gte_holds (q_adultCount_gte q) (adultCount h) \<longleftrightarrow> n \<le> adultCount h"
    if "supplied (adultCount_param queryParams) = Some v" and "parseInt (toString v) = Num n"
    for v n
    using that by (simp add: entries(2) gte_holds_def)
  have child: "gte_holds (q_childCount_gte q) (childCount h) \<longleftrightarrow> n \<le> childCount h"
    if "supplied (childCount_param queryParams) = Some v" and "parseInt (toString v) = Num n"
    for v n
    using that by (simp add: entries(3) gte_holds_def)
  have fac: "all_holds (q_facilities_all q) (facilities h) \<longleftrightarrow>
          set (string_array v) \<subseteq> set (facilities h)"
    if "supplied (facilities_param queryParams) = Some v" for v
    using that by (simp add: entries(4) all_holds_Some)
  have types_entry: "in_holds (q_type_in q) (type h) \<longleftrightarrow> type h \<in> set (string_array v)"
    if "supplied (types queryParams) = Some v" for v
    using that by (simp add: entries(5) in_holds_def)
  have star: "in_numbers_holds (q_starRating_in q) (starRating h) \<longleftrightarrow>
          (\<exists>s \<in> set (string_array v). parseInt s = Num (starRating h))"
    if "supplied (stars queryParams) = Some v" for v
    using that by (simp only: entries(6) in_numbers_holds_starRatings option.map)
  have 1: "\<forall>d. supplied (destination queryParams) = Some d \<longrightarrow>
       q_or q = Some [(''city'', RegExp (toString d) ''i''),
                      (''country'', RegExp (toString d) ''i'')] \<and>
       (ecmascript_regexps env \<and> plain (toString d) \<longrightarrow>
          (or_holds env (q_or q) h \<longleftrightarrow>
             sublist (map Canonicalize (toString d)) (map Canonicalize (city h)) \<or>
             sublist (map Canonicalize (toString d)) (map Canonicalize (country h))))"
    by (intro allI impI) (rule dest)
  have 2: "\<forall>v n. supplied (adultCount_param queryParams) = Some v \<and>
       parseInt (toString v) = Num n \<longrightarrow>
       (gte_holds (q_adultCount_gte q) (adultCount h) \<longleftrightarrow> n \<le> adultCount h)"
    using adult by blast
  have 3: "\<forall>v n. supplied (childCount_param queryParams) = Some v \<and>
       parseInt (toString v) = Num n \<longrightarrow>
       (gte_holds (q_childCount_gte q) (childCount h) \<longleftrightarrow> n \<le> childCount h)"
    using child by blast
  have 4: "\<forall>v. supplied (facilities_param queryParams) = Some v \<longrightarrow>
       (all_holds (q_facilities_all q) (facilities h) \<longleftrightarrow>
          set (string_array v) \<subseteq> set (facilities h))"
    by (intro allI impI) (rule fac)
  have 5: "\<forall>v. supplied (types queryParams) = Some v \<longrightarrow>
       (in_holds (q_type_in q) (type h) \<longleftrightarrow> type h \<in> set (string_array v))"
    by (intro allI impI) (rule types_entry)
  have 6: "\<forall>v. supplied (stars queryParams) = Some v \<longrightarrow>
       (in_numbers_holds (q_starRating_in q) (starRating h) \<longleftrightarrow>
          (\<exists>s \<in> set (string_array v). parseInt s = Num (starRating h)))"
    by (intro allI impI) (rule star)
  show ?thesis
    by (rule conjI [OF 1 conjI [OF 2 conjI [OF 3 conjI [OF 4 conjI [OF 5 6]]]]])
qed

text \<open>
  A request for \<open>PAR\<close>, three adults, parking, two types and two star ratings, against
  hotel \<open>B\<close> in Paris and hotel \<open>A\<close>.
\<close>

theorem supplied_parameter_constraints_witness:
  "constructSearchQuery example_env
     (no_params\<lparr>destination := Some (QStr ''PAR''), adultCount_param := Some (QStr ''3''),
        facilities_param := Some (QStr ''Parking''),
        types := Some (QArr [''Budget'', ''Hostel'']), stars := Some (QArr [''3'', ''5''])\<rparr>) =
     Inr (empty_query\<lparr>q_or := Some [(''city'', RegExp ''PAR'' ''i''),
                                       (''country'', RegExp ''PAR'' ''i'')],
        q_adultCount_gte := Some (Num 3), q_facilities_all := Some [''Parking''],
        q_type_in := Some [''Budget'', ''Hostel''],
        q_starRating_in := Some (Many [Num 3, Num 5])\<rparr>) \<and>
   city hotel_B = ''Paris'' \<and>
   or_holds example_env (Some [(''city'', RegExp ''PAR'' ''i''),
                               (''country'', RegExp ''PAR'' ''i'')]) hotel_B \<and>
   gte_holds (Some (Num 3)) (adultCount hotel_B) \<and>
   \<not> gte_holds (Some (Num 3)) (adultCount hotel_A) \<and>
   all_holds (Some [''Parking'']) (facilities hotel_B) \<and>
   in_holds (Some [''Budget'', ''Hostel'']) (type hotel_B) \<and>
   in_numbers_holds (Some (Many [Num 3, Num 5])) (starRating hotel_B)"
proof -
  let ?P = "no_params\<lparr>destination := Some (QStr ''PAR''), adultCount_param := Some (QStr ''3''),
        facilities_param := Some (QStr ''Parking''),
        types := Some (QArr [''Budget'', ''Hostel'']), stars := Some (QArr [''3'', ''5''])\<rparr>"
  let ?q = "empty_query\<lparr>q_or := Some [(''city'', RegExp ''PAR'' ''i''),
                                       (''country'', RegExp ''PAR'' ''i'')],
        q_adultCount_gte := Some (Num 3), q_facilities_all := Some [''Parking''],
        q_type_in := Some [''Budget'', ''Hostel''],
        q_starRating_in := Some (Many [Num 3, Num 5])\<rparr>"
  have built: "constructSearchQuery example_env ?P = Inr ?q"
    by code_simp
  have params: "supplied (destination ?P) = Some (QStr ''PAR'')"
    "supplied (adultCount_param ?P) = Some (QStr ''3'')"
    "supplied (facilities_param ?P) = Some (QStr ''Parking'')"
    "supplied (types ?P) = Some (QArr [''Budget'', ''Hostel''])"
    "supplied (stars ?P) = Some (QArr [''3'', ''5''])"
    by (simp_all add: supplied_def)
  have pat: "ecmascript_regexps example_env \<and> plain (toString (QStr ''PAR''))"
    by (simp add: example_env_ecmascript plain_def SyntaxCharacter_def)
  have parsed: "parseInt (toString (QStr ''3'')) = Num 3"
    by code_simp
  have vals: "sublist (map Canonicalize (toString (QStr ''PAR''))) (map Canonicalize (city hotel_B))"
    "3 \<le> adultCount hotel_B" "\<not> 3 \<le> adultCount hotel_A"
    "set (string_array (QStr ''Parking'')) \<subseteq> set (facilities hotel_B)"
    "type hotel_B \<in> set (string_array (QArr [''Budget'', ''Hostel'']))"
    "\<exists>s \<in> set (string_array (QArr [''3'', ''5''])). parseInt s = Num (starRating hotel_B)"
    by code_simp+
  have ents: "q_or ?q = Some [(''city'', RegExp ''PAR'' ''i''), (''country'', RegExp ''PAR'' ''i'')]"
    "q_adultCount_gte ?q = Some (Num 3)" "q_facilities_all ?q = Some [''Parking'']"
    "q_type_in ?q = Some [''Budget'', ''Hostel'']"
    "q_starRating_in ?q = Some (Many [Num 3, Num 5])"
    by simp_all
  note B = supplied_parameter_constraints [OF built, of hotel_B]
  note A = supplied_parameter_constraints [OF built, of hotel_A]
  have "or_holds example_env (q_or ?q) hotel_B"
    using B [THEN conjunct1, rule_format, OF params(1), THEN conjunct2, rule_format, OF pat]
      vals(1) by blast
  moreover have "gte_holds (q_adultCount_gte ?q) (adultCount hotel_B)"
    using B [THEN conjunct2, THEN conjunct1, rule_format, OF conjI [OF params(2) parsed]]
      vals(2) by blast
  moreover have "\<not> gte_holds (q_adultCount_gte ?q) (adultCount hotel_A)"
    using A [THEN conjunct2, THEN conjunct1, rule_format, OF conjI [OF params(2) parsed]]
      vals(3) by blast
  moreover have "all_holds (q_facilities_all ?q) (facilities hotel_B)"
    using B [THEN conjunct2, THEN conjunct2, THEN conjunct2, THEN conjunct1, rule_format,
        OF params(3)] vals(4) by blast
  moreover have "in_holds (q_type_in ?q) (type hotel_B)"
    using B [THEN conjunct2, THEN conjunct2, THEN conjunct2, THEN conjunct2, THEN conjunct1,
        rule_format, OF params(4)] vals(5) by blast
  moreover have "in_numbers_holds (q_starRating_in ?q) (starRating hotel_B)"
    using B [THEN conjunct2, THEN conjunct2, THEN conjunct2, THEN conjunct2, THEN conjunct2,
        rule_format, OF params(5)] vals(6) by blast
  moreover have "city hotel_B = ''Paris''"
    by (simp add: hotel_B_def)
  ultimately show ?thesis
    using built unfolding ents by (intro conjI)
qed

section \<open>Pagination\<close>

lemma length_apply_sort: "length (apply_sort s hs) = length hs"
  by (cases s) (auto split: prod.splits)

lemma beyond_last_page:
  assumes "Math_ceil_div t 3 < n"
  shows "int t \<le> (n - 1) * 3"
proof -
  from assms have "(of_nat t :: rat) / 3 \<le> of_int n - 1"
    by (simp add: Math_ceil_div_def ceiling_less_iff)
  then have "(of_nat t :: rat) \<le> of_int ((n - 1) * 3)"
    by simp
  then show ?thesis
    by (metis of_int_le_iff of_int_of_nat_eq)
qed

lemma get_search_json:
  assumes "get_search env query w = Responded resp" and "payload resp = Search_json r"
  shows "code resp = 200 \<and> pages r = \<lceil>(of_nat (total r) :: rat) / 3\<rceil> \<and> length (data r) \<le> 3"
  using assms
  by (auto simp: get_search_def Let_def find_page_def countDocuments_def Math_ceil_div_def
      split: sum.splits promise.splits if_splits jsnum.splits)

lemma get_search_beyond:
  assumes q: "constructSearchQuery env query = Inr q"
    and ok: "\<not> store_rejects env (Find q)" "\<not> store_rejects env (CountDocuments q)"
    and page: "parseInt (page_string query) = Num n"
    and beyond: "\<lceil>(of_nat (length (filter (hotel_matches env q) (collection w))) :: rat) / 3\<rceil> < n"
  shows "get_search env query w =
     Responded \<lparr>code = 200, payload = Search_json
       \<lparr>data = [], total = length (filter (hotel_matches env q) (collection w)),
        page = Num n,
        pages = \<lceil>(of_nat (length (filter (hotel_matches env q) (collection w))) :: rat) / 3\<rceil>\<rparr>\<rparr>"
proof -
  let ?t = "length (filter (hotel_matches env q) (collection w))"
  from beyond have le: "int ?t \<le> (n - 1) * 3"
    by (intro beyond_last_page) (simp add: Math_ceil_div_def)
  then have nonneg: "\<not> (n - 1) * 3 < 0" by linarith
  from le have "?t \<le> nat ((n - 1) * 3)" by linarith
  then have empty: "drop (nat ((n - 1) * 3))
      (apply_sort (sort_options_of (sortOption query)) (filter (hotel_matches env q) (collection w))) = []"
    by (simp add: length_apply_sort)
  show ?thesis
    using q ok page nonneg empty
    by (simp add: get_search_def Let_def find_page_def countDocuments_def Math_ceil_div_def)
qed

text \<open>
  C4. Whenever the search route answers with a search result, the answer is a 200, its
  page count is the ceiling of its total over 3, it carries at most 3 hotels, and its
  total is the number of hotels of the collection that match the built query. When the
  query is built, the store rejects neither the find nor the count, and the page number
  read from the request is greater than the ceiling of the number of matching hotels
  over 3, the route answers 200 with no hotel, that number as the total, the page number
  and that ceiling as the page count.
\<close>

theorem search_pagination:
  "(\<forall>resp r. get_search env query w = Responded resp \<and> payload resp = Search_json r \<longrightarrow>
      code resp = 200 \<and> pages r = \<lceil>(of_nat (total r) :: rat) / 3\<rceil> \<and> length (data r) \<le> 3 \<and>
      (\<exists>q. constructSearchQuery env query = Inr q \<and>
           total r = length (filter (hotel_matches env q) (collection w)))) \<and>
   (\<forall>q n. constructSearchQuery env query = Inr q \<and>
      \<not> store_rejects env (Find q) \<and> \<not> store_rejects env (CountDocuments q) \<and>
      parseInt (page_string query) = Num n \<and>
      \<lceil>(of_nat (length (filter (hotel_matches env q) (collection w))) :: rat) / 3\<rceil> < n \<longrightarrow>
      get_search env query w =
        Responded \<lparr>code = 200, payload = Search_json
          \<lparr>data = [], total = length (filter (hotel_matches env q) (collection w)),
           page = Num n,
           pages = \<lceil>(of_nat (length (filter (hotel_matches env q) (collection w))) :: rat) / 3\<rceil>\<rparr>\<rparr>)"
proof -
  have accurate: "\<exists>q. constructSearchQuery env query = Inr q \<and>
           total r = length (filter (hotel_matches env q) (collection w))"
    if "get_search env query w = Responded resp" and "payload resp = Search_json r" for resp r
    using that
    by (auto simp: get_search_def Let_def find_page_def countDocuments_def
        split: sum.splits promise.splits if_splits jsnum.splits)
  show ?thesis
    using get_search_json [of env query w] accurate get_search_beyond [of env query _ _ w]
    by blast
qed

text \<open>
  Seven matching hotels: page 3 carries the seventh hotel, page 4 carries none, and both
  report a total of 7 in 3 pages.
\<close>

theorem search_pagination_witness:
  "get_search example_env (no_params\<lparr>page_param := Some (QStr ''3'')\<rparr>) seven_hotels =
     Responded \<lparr>code = 200, payload = Search_json
       \<lparr>data = [hotel_B\<lparr>hotel_id := ''7''\<rparr>], total = 7, page = Num 3, pages = 3\<rparr>\<rparr> \<and>
   get_search example_env (no_params\<lparr>page_param := Some (QStr ''4'')\<rparr>) seven_hotels =
     Responded \<lparr>code = 200, payload = Search_json
       \<lparr>data = [], total = 7, page = Num 4, pages = 3\<rparr>\<rparr>"
proof -
  let ?P3 = "no_params\<lparr>page_param := Some (QStr ''3'')\<rparr>"
  let ?P4 = "no_params\<lparr>page_param := Some (QStr ''4'')\<rparr>"
  let ?r = "\<lparr>data = [hotel_B\<lparr>hotel_id := ''7''\<rparr>], total = 7, page = Num 3, pages = 3\<rparr>"
  have third: "get_search example_env ?P3 seven_hotels =
      Responded \<lparr>code = 200, payload = Search_json ?r\<rparr>"
    by code_simp
  have built: "constructSearchQuery example_env ?P4 = Inr empty_query"
    by code_simp
  have ok: "\<not> store_rejects example_env (Find empty_query)"
    "\<not> store_rejects example_env (CountDocuments empty_query)"
    by (simp_all add: example_env_def)
  have parsed: "parseInt (page_string ?P4) = Num 4"
    by code_simp
  have count: "length (filter (hotel_matches example_env empty_query) (collection seven_hotels)) = 7"
    by code_simp
  have beyond: "\<lceil>(of_nat (length (filter (hotel_matches example_env empty_query)
      (collection seven_hotels))) :: rat) / 3\<rceil> < 4"
    unfolding count by simp
  have "\<lceil>(of_nat (length (filter (hotel_matches example_env empty_query)
      (collection seven_hotels))) :: rat) / 3\<rceil> = 3"
    unfolding count by (simp add: ceiling_eq_iff)
  with search_pagination [of example_env ?P4 seven_hotels, THEN conjunct2, rule_format,
      OF conjI [OF built conjI [OF ok(1) conjI [OF ok(2) conjI [OF parsed beyond]]]]] count
  have fourth: "get_search example_env ?P4 seven_hotels =
     Responded \<lparr>code = 200, payload = Search_json
       \<lparr>data = [], total = 7, page = Num 4, pages = 3\<rparr>\<rparr>"
    by simp
  from third fourth show ?thesis by (intro conjI)
qed

end
